theory Spec2Isabelle
  imports Complex_Main "HOL-Library.Log_Nat"
begin

section \<open>The activity tracker of \<^verbatim>\<open>src/activity-tracker.js\<close>\<close>

text \<open>
  The class \<^verbatim>\<open>ActivityTracker\<close> keeps one session object in \<^verbatim>\<open>this.sessionData\<close>,
  appends activity records to it and writes it to \<^verbatim>\<open>localStorage\<close> after every change.
  The embedding below follows the methods of the class one by one. What the platform
  does is modelled as follows.

  \<^item> Time. \<^verbatim>\<open>Date.now()\<close>, and \<^verbatim>\<open>new Date()\<close>, read the clock. The clock is a function
    \<open>clk\<close> from the number of readings taken so far to milliseconds; the tracker counts
    its readings in \<open>clockReads\<close>, so the \<open>k\<close>-th reading of a run is \<open>clk k\<close>. A
    timestamp is the number of milliseconds: \<^verbatim>\<open>toISOString()\<close> followed by
    \<^verbatim>\<open>new Date(...).getTime()\<close> gives the same milliseconds back.
  \<^item> Numbers. A number of the source is a double. Timestamps, counters and stored
    percentages are integers, which a double holds exactly below \<open>2 ^ 53\<close> in magnitude:
    there the \<^verbatim>\<open>++\<close> of a counter is \<open>+ 1\<close>, as the model has it, and beyond it is not
    (a counter of \<open>2 ^ 53\<close> stays where it is). The quotient and the product in
    \<^verbatim>\<open>updateScrollPercentage\<close> are rounded to the nearest double, ties to even, as the
    source computes them (\<open>toDouble\<close>), for a scroll position that is a finite double
    and a product that does not overflow (\<open>percentageIsFinite\<close>), a page being far from
    the height where it would.
  \<^item> Objects. An object literal with a fixed set of properties is a record; a
    \<^verbatim>\<open>details\<close> object, whose properties depend on the kind of record, is a record of
    optional properties.
  \<^item> Storage. The value under the storage key is a text. Instead of its characters the
    model keeps what \<^verbatim>\<open>JSON.parse\<close> makes of it, in four kinds (type \<open>blob\<close>):
    \<open>Serialized s\<close> is the text that \<^verbatim>\<open>JSON.stringify\<close> writes for the session object
    \<open>s\<close> as the tracker builds it, which \<^verbatim>\<open>JSON.parse\<close> reads back as \<open>s\<close>;
    \<open>Respelled sp s\<close> is another text that \<^verbatim>\<open>JSON.parse\<close> reads as the same object,
    such as the same text indented; \<open>Unparsable txt\<close> is a text \<open>txt\<close> that
    \<^verbatim>\<open>JSON.parse\<close> rejects with a \<^verbatim>\<open>SyntaxError\<close> (the empty text is one);
    \<open>NotSession v\<close> is a text that parses to a value that is not a session, of which
    \<open>v\<close> keeps what \<^verbatim>\<open>initializeSession\<close> looks at. Not modelled are the texts of a
    session object built otherwise than the tracker builds it (its properties in
    another order, its times spelled otherwise than \<^verbatim>\<open>toISOString\<close> spells them); a
    write to the store is taken to succeed.
  \<^item> The widget. Of the rendering the model keeps whether \<^verbatim>\<open>this.widgetElement\<close> is set
    and the clock readings that a redraw takes; the listeners are left out, and the
    methods they call are the operations of the model.
\<close>

subsection \<open>Data\<close>

text \<open>The identifier \<^verbatim>\<open>`session_${timestamp}_${random}`\<close>, kept as its two parts.\<close>

datatype session_id = SessionId (idTimestamp: int) (idRandom: string)

record details =
  page :: "string option"
  scrollPercentage :: "int option"
  action :: "string option"
  element :: "string option"
  form :: "string option"

record activity =
  type :: string
  timestamp :: int
  details :: details

record stats =
  pagesViewed :: int
  totalClicks :: int
  formsSubmitted :: int

record session =
  sessionId :: session_id
  startTime :: int
  lastActivity :: int
  activities :: "activity list"
  stats :: stats

text \<open>
  What \<^verbatim>\<open>initializeSession\<close> and \<^verbatim>\<open>trackPageView\<close> look at in a parsed value that is
  not a session. The value is \<^verbatim>\<open>null\<close>, or it is a value of which the model keeps
  \<^item> \<open>lastActivityTime\<close>: what \<^verbatim>\<open>new Date(data.lastActivity).getTime()\<close> gives, \<open>None\<close>
    for \<^verbatim>\<open>NaN\<close> (as when the property is missing, or the value is a number, a string
    or an array and has no such property);
  \<^item> \<open>activitiesIsArray\<close>: whether \<^verbatim>\<open>data.activities\<close> is an array, so that it has a
    \<^verbatim>\<open>push\<close>;
  \<^item> \<open>statsIsObject\<close>: whether \<^verbatim>\<open>data.stats\<close> is an object or an array, so that a
    property can be read from it and, in strict mode, written to it.
\<close>

datatype observed =
    NullValue
  | OtherValue (lastActivityTime: "int option") (activitiesIsArray: bool) (statsIsObject: bool)

text \<open>
  The other texts of a session object: \<open>Indented n\<close> is the text that
  \<^verbatim>\<open>JSON.stringify(s, null, n + 1)\<close> writes, with line breaks and \<open>n + 1\<close> spaces of
  indentation; \<open>Spelled txt\<close> is any other one, by its characters.
\<close>

datatype spelling = Indented nat | Spelled string

datatype blob =
    Unparsable string
  | Serialized session
  | Respelled spelling session
  | NotSession observed

datatype parsed = ASession session | NotASession observed

datatype error = SyntaxError | TypeError

text \<open>
  How \<^verbatim>\<open>initializeSession\<close> ends when it does not give a tracker that holds a session:
  an exception reaches the caller, or the method returns with \<^verbatim>\<open>this.sessionData\<close> set
  to the stored value that is not a session, where the model stops.
\<close>

datatype ending = Throws error | ResumesOther

type_synonym clock = "nat \<Rightarrow> int"

text \<open>
  The tracker: \<^verbatim>\<open>this.sessionData\<close>, the value under the storage key, the number of clock
  readings taken so far, and whether \<^verbatim>\<open>this.widgetElement\<close> has been set.
\<close>

record tracker =
  sessionData :: session
  localStorage :: "blob option"
  clockReads :: nat
  widgetElement :: bool

subsection \<open>Platform functions\<close>

definition JSON_stringify :: "session \<Rightarrow> blob" where
  "JSON_stringify s = Serialized s"

fun JSON_parse :: "blob \<Rightarrow> error + parsed" where
  "JSON_parse (Unparsable txt) = Inl SyntaxError"
| "JSON_parse (Serialized s) = Inr (ASession s)"
| "JSON_parse (Respelled sp s) = Inr (ASession s)"
| "JSON_parse (NotSession v) = Inr (NotASession v)"

text \<open>
  The test \<^verbatim>\<open>if (stored)\<close> on a text: the empty string is falsy, and a text that parses
  is not empty. (The other falsy value that \<^verbatim>\<open>getItem\<close> returns is \<^verbatim>\<open>null\<close>, which is
  \<open>None\<close>.)
\<close>

fun truthy :: "blob \<Rightarrow> bool" where
  "truthy (Unparsable txt) = (txt \<noteq> [])"
| "truthy (Serialized s) = True"
| "truthy (Respelled sp s) = True"
| "truthy (NotSession v) = True"

text \<open>
  \<^verbatim>\<open>new Date(data.lastActivity).getTime()\<close>: reading a property of \<^verbatim>\<open>null\<close> throws a
  \<^verbatim>\<open>TypeError\<close>; \<open>None\<close> is \<^verbatim>\<open>NaN\<close>.
\<close>

fun lastActivityOf :: "parsed \<Rightarrow> error + int option" where
  "lastActivityOf (ASession s) = Inr (Some (lastActivity s))"
| "lastActivityOf (NotASession NullValue) = Inl TypeError"
| "lastActivityOf (NotASession (OtherValue t a st)) = Inr t"

text \<open>
  Doubles. \<open>floorLog2 x\<close> is \<open>\<lfloor>log\<^sub>2 x\<rfloor>\<close> for a positive rational, from the lengths in
  bits of its numerator and denominator. \<open>toDouble x\<close> is the double nearest to \<open>x\<close>:
  \<open>x\<close> is scaled to 53 significant bits (fewer where a double is subnormal), rounded
  to the nearest integer, a tie to the even one, and scaled back. It is what a sum, a
  product or a quotient of doubles is rounded to, short of an overflow.
\<close>

definition floorLog2 :: "rat \<Rightarrow> int" where
  "floorLog2 x =
     (let (a, b) = quotient_of x; k = bitlen a - bitlen b
      in if 2 powi k \<le> x then k else k - 1)"

definition roundHalfEven :: "rat \<Rightarrow> int" where
  "roundHalfEven q =
     (let n = \<lfloor>q\<rfloor>; r = q - of_int n
      in if r < 1 / 2 then n else if 1 / 2 < r then n + 1 else if even n then n else n + 1)"

definition toDouble :: "rat \<Rightarrow> rat" where
  "toDouble x =
     (if x = 0 then 0
      else (let e = max (floorLog2 \<bar>x\<bar> - 52) (- 1074)
            in sgn x * of_int (roundHalfEven (\<bar>x\<bar> / 2 powi e)) * 2 powi e))"

text \<open>
  A finite double is a rational that the rounding leaves as it is, below \<open>2 ^ 1024\<close> in
  magnitude; a result that the rounding takes to \<open>2 ^ 1024\<close> or beyond is an overflow,
  \<^verbatim>\<open>Infinity\<close> in the source.
\<close>

definition isDouble :: "rat \<Rightarrow> bool" where
  "isDouble x = (toDouble x = x \<and> \<bar>x\<bar> < 2 ^ 1024)"

text \<open>\<^verbatim>\<open>Math.round\<close>: the nearest integer, a half rounded up.\<close>

definition Math_round :: "rat \<Rightarrow> int" where
  "Math_round x = \<lfloor>x + 1 / 2\<rfloor>"

text \<open>\<^verbatim>\<open>pathname.split('/').pop()\<close>: what follows the last slash.\<close>

definition last_segment :: "string \<Rightarrow> string" where
  "last_segment pathname = rev (takeWhile (\<lambda>c. c \<noteq> CHR ''/'') (rev pathname))"

text \<open>\<^verbatim>\<open>window.location.pathname.split('/').pop() || 'index.html'\<close>.\<close>

definition pageNameOf :: "string \<Rightarrow> string" where
  "pageNameOf pathname =
     (if last_segment pathname = [] then ''index.html'' else last_segment pathname)"

subsection \<open>The methods\<close>

definition sessionTimeout :: int where
  "sessionTimeout = 60 * 60 * 1000"

text \<open>
  \<^verbatim>\<open>createNewSession\<close> and \<^verbatim>\<open>initializeSession\<close> run in the constructor, before
  \<^verbatim>\<open>this.sessionData\<close> exists and before the widget is rendered: they take the stored
  value and the number of clock readings so far, and give the tracker.
\<close>

definition createNewSession :: "clock \<Rightarrow> string \<Rightarrow> blob option \<Rightarrow> nat \<Rightarrow> tracker" where
  "createNewSession clk random stored n =
     (let timestamp = clk n
      in \<lparr>sessionData =
            \<lparr>sessionId = SessionId timestamp random,
             startTime = clk (n + 1),
             lastActivity = clk (n + 2),
             activities = [],
             stats = \<lparr>pagesViewed = 0, totalClicks = 0, formsSubmitted = 0\<rparr>\<rparr>,
          localStorage = stored,
          clockReads = n + 3,
          widgetElement = False\<rparr>)"

definition saveSession :: "clock \<Rightarrow> tracker \<Rightarrow> tracker" where
  "saveSession clk w =
     (let sd = (sessionData w)\<lparr>lastActivity := clk (clockReads w)\<rparr>
      in w\<lparr>sessionData := sd,
           localStorage := Some (JSON_stringify sd),
           clockReads := Suc (clockReads w)\<rparr>)"

text \<open>
  \<^verbatim>\<open>updateSessionDuration\<close> writes \<^verbatim>\<open>`${durationMinutes} min`\<close> into the element
  \<^verbatim>\<open>stat-duration\<close> when the page has one (\<open>durationElement\<close>); the model returns the
  minutes written. \<^verbatim>\<open>updateStats\<close> writes the three counters into the page and calls it.
\<close>

definition durationMinutes :: "session \<Rightarrow> int \<Rightarrow> int" where
  "durationMinutes sd now = (now - startTime sd) div (1000 * 60)"

definition updateSessionDuration :: "clock \<Rightarrow> bool \<Rightarrow> tracker \<Rightarrow> int option \<times> tracker" where
  "updateSessionDuration clk durationElement w =
     (if durationElement
      then (Some (durationMinutes (sessionData w) (clk (clockReads w))),
            w\<lparr>clockReads := Suc (clockReads w)\<rparr>)
      else (None, w))"

definition updateStats :: "clock \<Rightarrow> bool \<Rightarrow> tracker \<Rightarrow> tracker" where
  "updateStats clk durationElement w = snd (updateSessionDuration clk durationElement w)"

definition trackPageView :: "clock \<Rightarrow> string \<Rightarrow> tracker \<Rightarrow> tracker" where
  "trackPageView clk pathname w =
     (let pageName = pageNameOf pathname;
          activity = \<lparr>type = ''pageview'',
                      timestamp = clk (clockReads w),
                      details = \<lparr>page = Some pageName, scrollPercentage = Some 0,
                                 action = None, element = None, form = None\<rparr>\<rparr>;
          sd = sessionData w;
          sd1 = sd\<lparr>activities := activities sd @ [activity]\<rparr>;
          sd2 = sd1\<lparr>stats := (stats sd1)\<lparr>pagesViewed := pagesViewed (stats sd1) + 1\<rparr>\<rparr>
      in saveSession clk (w\<lparr>sessionData := sd2, clockReads := Suc (clockReads w)\<rparr>))"

text \<open>
  After saving, \<^verbatim>\<open>trackClick\<close> and \<^verbatim>\<open>trackFormSubmit\<close> redraw the widget when there is
  one: \<^verbatim>\<open>updateTimeline\<close> changes the page only, \<^verbatim>\<open>updateStats\<close> reads the clock.
\<close>

definition trackClick :: "clock \<Rightarrow> string \<Rightarrow> bool \<Rightarrow> tracker \<Rightarrow> tracker" where
  "trackClick clk elementText durationElement w =
     (let activity = \<lparr>type = ''interaction'',
                      timestamp = clk (clockReads w),
                      details = \<lparr>page = None, scrollPercentage = None,
                                 action = Some ''click'', element = Some elementText,
                                 form = None\<rparr>\<rparr>;
          sd = sessionData w;
          sd1 = sd\<lparr>activities := activities sd @ [activity]\<rparr>;
          sd2 = sd1\<lparr>stats := (stats sd1)\<lparr>totalClicks := totalClicks (stats sd1) + 1\<rparr>\<rparr>;
          w' = saveSession clk (w\<lparr>sessionData := sd2, clockReads := Suc (clockReads w)\<rparr>)
      in if widgetElement w' then updateStats clk durationElement w' else w')"

definition trackFormSubmit :: "clock \<Rightarrow> string \<Rightarrow> bool \<Rightarrow> tracker \<Rightarrow> tracker" where
  "trackFormSubmit clk formId durationElement w =
     (let activity = \<lparr>type = ''interaction'',
                      timestamp = clk (clockReads w),
                      details = \<lparr>page = None, scrollPercentage = None,
                                 action = Some ''submit'', element = None,
                                 form = Some formId\<rparr>\<rparr>;
          sd = sessionData w;
          sd1 = sd\<lparr>activities := activities sd @ [activity]\<rparr>;
          sd2 = sd1\<lparr>stats := (stats sd1)\<lparr>formsSubmitted := formsSubmitted (stats sd1) + 1\<rparr>\<rparr>;
          w' = saveSession clk (w\<lparr>sessionData := sd2, clockReads := Suc (clockReads w)\<rparr>)
      in if widgetElement w' then updateStats clk durationElement w' else w')"

text \<open>
  \<^verbatim>\<open>initializeSession\<close> gives the tracker, or ends otherwise: the method has no handler,
  and neither has the constructor that calls it, so that an exception reaches the
  caller. The comparison \<^verbatim>\<open>now - lastActivity < this.sessionTimeout\<close> is false when
  \<^verbatim>\<open>lastActivity\<close> is \<^verbatim>\<open>NaN\<close>. A stored value that is not a session and is resumed goes
  to \<^verbatim>\<open>trackPageView\<close> as it is: \<^verbatim>\<open>this.sessionData.activities.push\<close> throws a
  \<^verbatim>\<open>TypeError\<close> unless \<^verbatim>\<open>activities\<close> is an array, and
  \<^verbatim>\<open>this.sessionData.stats.pagesViewed++\<close> throws one unless \<^verbatim>\<open>stats\<close> is an object.
\<close>

definition initializeSession ::
  "clock \<Rightarrow> string \<Rightarrow> string \<Rightarrow> blob option \<Rightarrow> nat \<Rightarrow> ending + tracker" where
  "initializeSession clk random pathname stored n =
     (let now = clk n
      in case (case stored of
                 None \<Rightarrow> Inr (createNewSession clk random stored (n + 1))
               | Some text \<Rightarrow>
                   if truthy text
                   then (case JSON_parse text of
                           Inl e \<Rightarrow> Inl (Throws e)
                         | Inr data \<Rightarrow>
                             (case lastActivityOf data of
                                Inl e \<Rightarrow> Inl (Throws e)
                              | Inr lastActivityMs \<Rightarrow>
                                  if (case lastActivityMs of
                                        None \<Rightarrow> False
                                      | Some t \<Rightarrow> now - t < sessionTimeout)
                                  then (case data of
                                          ASession s \<Rightarrow>
                                            Inr \<lparr>sessionData = s\<lparr>lastActivity := clk (n + 1)\<rparr>,
                                                 localStorage = stored,
                                                 clockReads = n + 2,
                                                 widgetElement = False\<rparr>
                                        | NotASession NullValue \<Rightarrow> Inl (Throws TypeError)
                                        | NotASession (OtherValue t a st) \<Rightarrow>
                                            if a \<and> st then Inl ResumesOther
                                            else Inl (Throws TypeError))
                                  else Inr (createNewSession clk random stored (n + 1))))
                   else Inr (createNewSession clk random stored (n + 1))) of
           Inl e \<Rightarrow> Inl e
         | Inr w \<Rightarrow> Inr (saveSession clk (trackPageView clk pathname w)))"

text \<open>\<^verbatim>\<open>renderWidget\<close> builds the widget from the session and reads no clock.\<close>

definition renderWidget :: "tracker \<Rightarrow> tracker" where
  "renderWidget w = w\<lparr>widgetElement := True\<rparr>"

text \<open>
  The loop of \<^verbatim>\<open>updateScrollPercentage\<close>, \<^verbatim>\<open>for (i = length - 1; i >= 0; i--)\<close>: the
  argument of \<open>scrollLoop\<close> is \<open>i + 1\<close>, the number of indices still to visit. The first
  page view found is changed, the session is saved and the loop ends; the redraw of the
  timeline that follows the save reads no clock.
\<close>

fun scrollLoop :: "clock \<Rightarrow> int \<Rightarrow> tracker \<Rightarrow> nat \<Rightarrow> tracker" where
  "scrollLoop clk percentage w 0 = w"
| "scrollLoop clk percentage w (Suc i) =
     (let sd = sessionData w; acts = activities sd
      in if type (acts ! i) = ''pageview''
         then (let a = acts ! i;
                   a' = a\<lparr>details := (details a)\<lparr>scrollPercentage := Some percentage\<rparr>\<rparr>
               in saveSession clk (w\<lparr>sessionData := sd\<lparr>activities := acts[i := a']\<rparr>\<rparr>))
         else scrollLoop clk percentage w i)"

text \<open>
  The arguments \<open>docScrollHeight\<close>, \<open>innerHeight\<close> and \<open>scrollY\<close> are what the method
  reads from \<^verbatim>\<open>document.documentElement.scrollHeight\<close>, \<^verbatim>\<open>window.innerHeight\<close> and
  \<^verbatim>\<open>window.scrollY\<close>.
\<close>

definition scrollPercentageOf :: "int \<Rightarrow> int \<Rightarrow> rat \<Rightarrow> int" where
  "scrollPercentageOf docScrollHeight innerHeight scrollY =
     (let scrollHeight = docScrollHeight - innerHeight;
          scrolled = scrollY
      in if scrollHeight > 0
         then Math_round (toDouble (toDouble (scrolled / of_int scrollHeight) * 100))
         else 0)"

text \<open>
  The scroll positions on which \<open>scrollPercentageOf\<close> is what the source computes:
  the position is a finite double, and the product does not overflow.
\<close>

definition percentageIsFinite :: "int \<Rightarrow> int \<Rightarrow> rat \<Rightarrow> bool" where
  "percentageIsFinite docScrollHeight innerHeight scrollY =
     (isDouble scrollY \<and>
      (0 < docScrollHeight - innerHeight \<longrightarrow>
         \<bar>toDouble (toDouble (scrollY / of_int (docScrollHeight - innerHeight)) * 100)\<bar>
           < 2 ^ 1024))"

definition updateScrollPercentage :: "clock \<Rightarrow> int \<Rightarrow> int \<Rightarrow> rat \<Rightarrow> tracker \<Rightarrow> tracker" where
  "updateScrollPercentage clk docScrollHeight innerHeight scrollY w =
     (let percentage = scrollPercentageOf docScrollHeight innerHeight scrollY
      in scrollLoop clk percentage w (length (activities (sessionData w))))"

subsection \<open>Reachable states and the counts of the log\<close>

text \<open>
  The states of a tracker that starts with a fresh session: any sequence of the
  operations that the listeners and the timer call.
\<close>

inductive reachable :: "clock \<Rightarrow> tracker \<Rightarrow> bool" for clk :: clock where
  fresh: "reachable clk (createNewSession clk random stored n)"
| pageView: "reachable clk w \<Longrightarrow> reachable clk (trackPageView clk pathname w)"
| click: "reachable clk w \<Longrightarrow> reachable clk (trackClick clk elementText durationElement w)"
| formSubmit: "reachable clk w \<Longrightarrow> reachable clk (trackFormSubmit clk formId durationElement w)"
| scroll: "reachable clk w \<Longrightarrow>
     reachable clk (updateScrollPercentage clk docScrollHeight innerHeight scrollY w)"
| save: "reachable clk w \<Longrightarrow> reachable clk (saveSession clk w)"
| render: "reachable clk w \<Longrightarrow> reachable clk (renderWidget w)"
| duration: "reachable clk w \<Longrightarrow> reachable clk (updateStats clk durationElement w)"

text \<open>
  The states of a tracker across page loads. A tracker starts with a fresh session, or
  with what \<^verbatim>\<open>initializeSession\<close> makes of the store when the page loads; a session in
  the store was started no later than the page loads (\<open>storedStartedBy\<close>), as is every
  session that a tracker on the same clock has stored before.
\<close>

fun storedStartedBy :: "blob option \<Rightarrow> int \<Rightarrow> bool" where
  "storedStartedBy (Some (Serialized s)) now = (startTime s \<le> now)"
| "storedStartedBy (Some (Respelled sp s)) now = (startTime s \<le> now)"
| "storedStartedBy _ now = True"

inductive visited :: "clock \<Rightarrow> tracker \<Rightarrow> bool" for clk :: clock where
  created: "visited clk (createNewSession clk random stored n)"
| loaded: "storedStartedBy stored (clk n) \<Longrightarrow>
     initializeSession clk random pathname stored n = Inr w \<Longrightarrow> visited clk w"
| viewed: "visited clk w \<Longrightarrow> visited clk (trackPageView clk pathname w)"
| clicked: "visited clk w \<Longrightarrow> visited clk (trackClick clk elementText durationElement w)"
| submitted: "visited clk w \<Longrightarrow>
     visited clk (trackFormSubmit clk formId durationElement w)"
| scrolled: "visited clk w \<Longrightarrow>
     visited clk (updateScrollPercentage clk docScrollHeight innerHeight scrollY w)"
| saved: "visited clk w \<Longrightarrow> visited clk (saveSession clk w)"
| rendered: "visited clk w \<Longrightarrow> visited clk (renderWidget w)"
| redrawn: "visited clk w \<Longrightarrow> visited clk (updateStats clk durationElement w)"

definition count_where :: "(activity \<Rightarrow> bool) \<Rightarrow> activity list \<Rightarrow> int" where
  "count_where P acts = int (length (filter P acts))"

definition isPageView :: "activity \<Rightarrow> bool" where
  "isPageView a = (type a = ''pageview'')"

definition isClick :: "activity \<Rightarrow> bool" where
  "isClick a = (type a = ''interaction'' \<and> action (details a) = Some ''click'')"

definition isSubmit :: "activity \<Rightarrow> bool" where
  "isSubmit a = (type a = ''interaction'' \<and> action (details a) = Some ''submit'')"

definition stats_match :: "session \<Rightarrow> bool" where
  "stats_match sd =
     (pagesViewed (stats sd) = count_where isPageView (activities sd) \<and>
      totalClicks (stats sd) = count_where isClick (activities sd) \<and>
      formsSubmitted (stats sd) = count_where isSubmit (activities sd))"

text \<open>A clock that starts at \<open>t0\<close> and advances by \<open>step\<close> at each reading.\<close>

definition ticking :: "int \<Rightarrow> int \<Rightarrow> clock" where
  "ticking t0 step k = t0 + step * int k"

text \<open>The record that \<^verbatim>\<open>trackPageView\<close> appends when the clock reads \<open>t\<close>.\<close>

definition pageViewAt :: "int \<Rightarrow> string \<Rightarrow> activity" where
  "pageViewAt t pathname =
     \<lparr>type = ''pageview'', timestamp = t,
      details = \<lparr>page = Some (pageNameOf pathname), scrollPercentage = Some 0,
                 action = None, element = None, form = None\<rparr>\<rparr>"

text \<open>What \<^verbatim>\<open>updateScrollPercentage\<close> makes of the record it finds.\<close>

definition withScroll :: "int \<Rightarrow> activity \<Rightarrow> activity" where
  "withScroll percentage a = a\<lparr>details := (details a)\<lparr>scrollPercentage := Some percentage\<rparr>\<rparr>"

text \<open>
  A session for the examples: a page view, a click, a second page view and a form
  submission after it; and a tracker that holds it, as stored.
\<close>

definition storedExample :: session where
  "storedExample =
     \<lparr>sessionId = SessionId 0 ''k3f9xa'',
      startTime = 0,
      lastActivity = 500,
      activities =
        [\<lparr>type = ''pageview'', timestamp = 0,
          details = \<lparr>page = Some ''index.html'', scrollPercentage = Some 80,
                     action = None, element = None, form = None\<rparr>\<rparr>,
         \<lparr>type = ''interaction'', timestamp = 200,
          details = \<lparr>page = None, scrollPercentage = None,
                     action = Some ''click'', element = Some ''Buy'', form = None\<rparr>\<rparr>,
         \<lparr>type = ''pageview'', timestamp = 300,
          details = \<lparr>page = Some ''cart.html'', scrollPercentage = Some 0,
                     action = None, element = None, form = None\<rparr>\<rparr>,
         \<lparr>type = ''interaction'', timestamp = 400,
          details = \<lparr>page = None, scrollPercentage = None,
                     action = Some ''submit'', element = None, form = Some ''checkout''\<rparr>\<rparr>],
      stats = \<lparr>pagesViewed = 2, totalClicks = 1, formsSubmitted = 1\<rparr>\<rparr>"

definition trackerExample :: tracker where
  "trackerExample =
     \<lparr>sessionData = storedExample,
      localStorage = Some (Serialized storedExample),
      clockReads = 0,
      widgetElement = True\<rparr>"

text \<open>The stored value of \<^verbatim>\<open>lastActivity\<close>, when the store holds a session.\<close>

fun persistedLastActivity :: "blob option \<Rightarrow> int option" where
  "persistedLastActivity (Some (Serialized s)) = Some (lastActivity s)"
| "persistedLastActivity _ = None"

section \<open>Properties\<close>

subsection \<open>Facts about the methods\<close>

lemma saveSession_sessionData:
  "sessionData (saveSession clk w) = (sessionData w)\<lparr>lastActivity := clk (clockReads w)\<rparr>"
  by (simp add: saveSession_def Let_def)

lemma saveSession_localStorage:
  "localStorage (saveSession clk w) =
     Some (Serialized ((sessionData w)\<lparr>lastActivity := clk (clockReads w)\<rparr>))"
  by (simp add: saveSession_def Let_def JSON_stringify_def)

lemma saveSession_clockReads:
  "clockReads (saveSession clk w) = Suc (clockReads w)"
  by (simp add: saveSession_def Let_def)

lemma updateStats_sessionData:
  "sessionData (updateStats clk durationElement w) = sessionData w"
  by (simp add: updateStats_def updateSessionDuration_def)

lemma updateStats_localStorage:
  "localStorage (updateStats clk durationElement w) = localStorage w"
  by (simp add: updateStats_def updateSessionDuration_def)

lemma updateStats_clockReads:
  "clockReads (updateStats clk durationElement w) =
     (if durationElement then Suc (clockReads w) else clockReads w)"
  by (simp add: updateStats_def updateSessionDuration_def)

text \<open>The loop either finds no page view and changes nothing, or saves once.\<close>

lemma scrollLoop_miss:
  "\<forall>i<k. type (activities (sessionData w) ! i) \<noteq> ''pageview'' \<Longrightarrow>
   scrollLoop clk percentage w k = w"
  by (induction k) (simp_all add: Let_def)

lemma scrollLoop_hit:
  "j < k \<Longrightarrow> type (activities (sessionData w) ! j) = ''pageview'' \<Longrightarrow>
   \<forall>i. j < i \<and> i < k \<longrightarrow> type (activities (sessionData w) ! i) \<noteq> ''pageview'' \<Longrightarrow>
   scrollLoop clk percentage w k =
     saveSession clk (w\<lparr>sessionData := (sessionData w)
       \<lparr>activities := (activities (sessionData w))
          [j := withScroll percentage (activities (sessionData w) ! j)]\<rparr>\<rparr>)"
proof (induction k)
  case 0
  then show ?case by simp
next
  case (Suc k)
  show ?case
  proof (cases "j = k")
    case True
    with Suc.prems show ?thesis by (simp add: Let_def withScroll_def)
  next
    case False
    with Suc.prems have "j < k" by simp
    moreover from Suc.prems \<open>j < k\<close>
    have "type (activities (sessionData w) ! k) \<noteq> ''pageview''" by simp
    ultimately show ?thesis using Suc by (simp add: Let_def)
  qed
qed

lemma scrollLoop_shape:
  assumes acts: "activities (sessionData w) = pre @ [p] @ post"
    and p: "type p = ''pageview''"
    and post: "\<forall>a\<in>set post. type a \<noteq> ''pageview''"
  shows "updateScrollPercentage clk docScrollHeight innerHeight scrollY w =
     saveSession clk (w\<lparr>sessionData := (sessionData w)
       \<lparr>activities := pre @ [withScroll
           (scrollPercentageOf docScrollHeight innerHeight scrollY) p] @ post\<rparr>\<rparr>)"
proof -
  let ?acts = "activities (sessionData w)"
  have j: "length pre < length ?acts" using acts by simp
  have at: "?acts ! length pre = p" using acts by simp
  have later: "\<forall>i. length pre < i \<and> i < length ?acts \<longrightarrow> type (?acts ! i) \<noteq> ''pageview''"
  proof (intro allI impI, elim conjE)
    fix i assume lo: "length pre < i" and hi: "i < length ?acts"
    have "length ?acts = Suc (length pre + length post)" using acts by simp
    with lo hi have "i - Suc (length pre) < length post" by arith
    moreover have "?acts ! i = post ! (i - Suc (length pre))"
      using lo acts by (simp add: nth_append nth_Cons')
    ultimately show "type (?acts ! i) \<noteq> ''pageview''" using post by simp
  qed
  have upd: "?acts[length pre := x] = pre @ [x] @ post" for x
    using acts by simp
  show ?thesis
    unfolding updateScrollPercentage_def Let_def
    using scrollLoop_hit [OF j _ later, of clk] at p by (simp add: upd)
qed

lemma scrollLoop_saves:
  "scrollLoop clk percentage w k = w \<and>
     (\<forall>i<k. type (activities (sessionData w) ! i) \<noteq> ''pageview'') \<or>
   (\<exists>acts'. scrollLoop clk percentage w k =
      saveSession clk (w\<lparr>sessionData := (sessionData w)\<lparr>activities := acts'\<rparr>\<rparr>))"
proof (induction k)
  case 0
  then show ?case by simp
next
  case (Suc k)
  show ?case
  proof (cases "type (activities (sessionData w) ! k) = ''pageview''")
    case True
    then show ?thesis by (auto simp: Let_def)
  next
    case False
    with Suc show ?thesis by (auto simp: Let_def less_Suc_eq)
  qed
qed


subsection \<open>Doubles\<close>

lemma quotient_of_pos:
  assumes "0 < x" and "quotient_of x = (a, b)"
  shows "0 < a" and "0 < b" and "x = of_int a / of_int b"
proof -
  show b: "0 < b" using assms(2) by (rule quotient_of_denom_pos)
  show x: "x = of_int a / of_int b" using assms(2) by (rule quotient_of_div)
  from assms(1) x b show "0 < a" by (simp add: zero_less_divide_iff)
qed

lemma bitlen_powi_bounds:
  assumes "0 < a"
  shows "(2::rat) powi (bitlen a - 1) \<le> of_int a" and "of_int a < (2::rat) powi bitlen a"
proof -
  from assms have pos: "1 \<le> bitlen a" by (auto simp: bitlen_alt_def)
  from bitlen_bounds [OF assms]
  have lo: "2 ^ nat (bitlen a - 1) \<le> a" and hi: "a < 2 ^ nat (bitlen a)" by simp_all
  from lo have "(of_int (2 ^ nat (bitlen a - 1)) :: rat) \<le> of_int a"
    by (rule of_int_le_iff [THEN iffD2])
  with pos show "(2::rat) powi (bitlen a - 1) \<le> of_int a"
    by (simp add: power_int_def)
  from hi have "(of_int a :: rat) < of_int (2 ^ nat (bitlen a))"
    by (rule of_int_less_iff [THEN iffD2])
  with pos show "of_int a < (2::rat) powi bitlen a"
    by (simp add: power_int_def)
qed

text \<open>\<open>floorLog2\<close> is the floor of the binary logarithm.\<close>

lemma floorLog2_bounds:
  assumes "0 < x"
  shows "2 powi floorLog2 x \<le> x" and "x < 2 powi (floorLog2 x + 1)"
proof -
  obtain a b where q: "quotient_of x = (a, b)" by (cases "quotient_of x")
  from quotient_of_pos [OF assms q]
  have a: "0 < a" and b: "0 < b" and x: "x = of_int a / of_int b" by simp_all
  let ?k = "bitlen a - bitlen b"
  have fl: "floorLog2 x = (if 2 powi ?k \<le> x then ?k else ?k - 1)"
    by (simp add: floorLog2_def q Let_def)
  have lower: "2 powi (?k - 1) \<le> x"
  proof -
    have "(2::rat) powi (?k - 1) = 2 powi (bitlen a - 1) / 2 powi bitlen b"
      by (simp add: power_int_diff)
    also have "\<dots> \<le> of_int a / 2 powi bitlen b"
      using bitlen_powi_bounds(1) [OF a] by (simp add: divide_right_mono)
    also have "\<dots> \<le> of_int a / of_int b"
      using bitlen_powi_bounds(2) [OF b] a b by (simp add: frac_le)
    finally show ?thesis by (simp add: x)
  qed
  have upper: "x < 2 powi (?k + 1)"
  proof -
    have "x = of_int a / of_int b" by (rule x)
    also have "\<dots> < 2 powi bitlen a / of_int b"
      using bitlen_powi_bounds(2) [OF a] b by (simp add: divide_strict_right_mono)
    also have "\<dots> \<le> 2 powi bitlen a / 2 powi (bitlen b - 1)"
      using bitlen_powi_bounds(1) [OF b] b by (simp add: frac_le)
    also have "\<dots> = 2 powi (?k + 1)"
      by (simp add: power_int_diff power_int_add field_simps)
    finally show ?thesis .
  qed
  from lower show "2 powi floorLog2 x \<le> x" by (simp add: fl)
  from upper show "x < 2 powi (floorLog2 x + 1)" by (auto simp: fl not_le)
qed

lemma roundHalfEven_nonneg: "0 \<le> q \<Longrightarrow> 0 \<le> roundHalfEven q"
  by (simp add: roundHalfEven_def Let_def)

lemma roundHalfEven_le:
  assumes "q \<le> of_int K"
  shows "roundHalfEven q \<le> K"
proof -
  from assms have fl: "\<lfloor>q\<rfloor> \<le> K" by (simp add: floor_le_iff)
  show ?thesis
  proof (cases "q = of_int \<lfloor>q\<rfloor>")
    case True
    then have "q - of_int \<lfloor>q\<rfloor> = 0" by simp
    with fl show ?thesis by (simp add: roundHalfEven_def Let_def)
  next
    case False
    with assms have "of_int \<lfloor>q\<rfloor> < (of_int K :: rat)"
      by (metis floor_of_int le_less of_int_floor_le of_int_less_iff floor_less_iff
          order_le_less_trans)
    then have "\<lfloor>q\<rfloor> + 1 \<le> K" by simp
    with fl show ?thesis by (simp add: roundHalfEven_def Let_def)
  qed
qed

text \<open>The rounding is to a nearest integer: it is off by a half at most.\<close>

lemma roundHalfEven_near: "\<bar>of_int (roundHalfEven q) - q\<bar> \<le> 1 / 2"
proof -
  have "of_int \<lfloor>q\<rfloor> \<le> q" "q < of_int \<lfloor>q\<rfloor> + 1" by linarith+
  then show ?thesis by (auto simp: roundHalfEven_def Let_def abs_le_iff)
qed

lemma toDouble_nonneg: "0 \<le> x \<Longrightarrow> 0 \<le> toDouble x"
  by (simp add: toDouble_def Let_def roundHalfEven_nonneg)

text \<open>
  Rounding to a double does not pass an integer: below \<open>2 ^ 53\<close> every integer is a
  double.
\<close>

lemma toDouble_le_int:
  assumes "0 \<le> x" and "x \<le> of_int N" and "x < 2 ^ 53"
  shows "toDouble x \<le> of_int N"
proof (cases "x = 0")
  case True
  with assms show ?thesis by (simp add: toDouble_def)
next
  case False
  with assms have pos: "0 < x" by simp
  define e where "e = max (floorLog2 x - 52) (- 1074)"
  have "(2::rat) powi floorLog2 x \<le> x" using floorLog2_bounds(1) [OF pos] .
  also have "x < 2 powi 53" using assms(3) by simp
  finally have "floorLog2 x < 53"
    by (rule power_int_le_imp_less_exp [rotated]) simp_all
  then have e: "e \<le> 0" by (simp add: e_def)
  define K where "K = N * 2 ^ nat (- e)"
  have scale: "(2::rat) powi e = 1 / 2 ^ nat (- e)"
    using e by (cases "e = 0") (simp_all add: power_int_def field_simps)
  have "x / 2 powi e \<le> of_int K"
    using assms(2) by (simp add: scale K_def)
  then have "roundHalfEven (x / 2 powi e) \<le> K" by (rule roundHalfEven_le)
  then have "of_int (roundHalfEven (x / 2 powi e)) * 2 powi e \<le> (of_int K :: rat) * 2 powi e"
    by (simp add: mult_right_mono)
  also have "\<dots> = of_int N" by (simp add: scale K_def)
  finally show ?thesis using pos by (simp add: toDouble_def Let_def e_def)
qed

lemma toDouble_range:
  assumes "0 \<le> x" and "x \<le> of_int N" and "N < 2 ^ 53"
  shows "0 \<le> toDouble x \<and> toDouble x \<le> of_int N"
proof -
  from assms(3) have "(of_int N :: rat) < of_int (2 ^ 53)"
    by (rule of_int_less_iff [THEN iffD2])
  with assms(2) have "x < 2 ^ 53" by simp
  with assms show ?thesis by (simp add: toDouble_nonneg toDouble_le_int)
qed

lemma scrollPercentageOf_range:
  assumes "0 \<le> scrollY" and "scrollY \<le> of_int (docScrollHeight - innerHeight)"
  shows "0 \<le> scrollPercentageOf docScrollHeight innerHeight scrollY \<and>
         scrollPercentageOf docScrollHeight innerHeight scrollY \<le> 100"
proof (cases "0 < docScrollHeight - innerHeight")
  case False
  then show ?thesis by (simp add: scrollPercentageOf_def)
next
  case True
  let ?h = "docScrollHeight - innerHeight"
  let ?q = "toDouble (scrollY / of_int ?h)"
  let ?p = "toDouble (?q * 100)"
  have "0 \<le> scrollY / of_int ?h" "scrollY / of_int ?h \<le> of_int 1"
    using assms True by (simp_all add: divide_le_eq_1)
  from toDouble_range [OF this] have q: "0 \<le> ?q" "?q \<le> 1" by simp_all
  then have "0 \<le> ?q * 100" "?q * 100 \<le> of_int 100" by simp_all
  from toDouble_range [OF this] have p: "0 \<le> ?p" "?p \<le> 100" by simp_all
  then have "0 \<le> ?p + 1 / 2" "?p + 1 / 2 < 101" by simp_all
  then have "0 \<le> \<lfloor>?p + 1 / 2\<rfloor>" "\<lfloor>?p + 1 / 2\<rfloor> < 101"
    by (simp_all add: floor_less_iff)
  with True show ?thesis
    by (simp add: scrollPercentageOf_def Math_round_def)
qed

text \<open>
  Doubles on concrete numbers: a tenth, the largest step below one half, and the
  products that the exact quotient would round the other way.
\<close>

lemma toDouble_examples:
  "toDouble (1 / 10) = 3602879701896397 / 2 ^ 55"
  "toDouble (23 / 40) * 2 ^ 53 = 5179139571476070"
  "toDouble 9007199254740993 = 9007199254740992"
  "scrollPercentageOf 840 800 23 = 57"
  "scrollPercentageOf 1000 800 29 = 14"
  by code_simp+

subsection \<open>Facts about initialization\<close>

lemma trackPageView_sessionData:
  "sessionData (trackPageView clk pathname w) =
     (sessionData w)
       \<lparr>lastActivity := clk (Suc (clockReads w)),
        activities := activities (sessionData w) @ [pageViewAt (clk (clockReads w)) pathname],
        stats := (stats (sessionData w))\<lparr>pagesViewed := pagesViewed (stats (sessionData w)) + 1\<rparr>\<rparr>"
  by (simp add: trackPageView_def Let_def saveSession_sessionData pageViewAt_def)

lemma trackPageView_clockReads:
  "clockReads (trackPageView clk pathname w) = clockReads w + 2"
  by (simp add: trackPageView_def Let_def saveSession_clockReads)

lemma parses_to_session:
  "JSON_parse b = Inr (ASession s) \<longleftrightarrow> b = Serialized s \<or> (\<exists>sp. b = Respelled sp s)"
  by (cases b) auto

lemma initializeSession_stored:
  assumes "JSON_parse b = Inr (ASession s)"
  shows "initializeSession clk random pathname (Some b) n =
     Inr (saveSession clk (trackPageView clk pathname
       (if clk n - lastActivity s < sessionTimeout
        then \<lparr>sessionData = s\<lparr>lastActivity := clk (n + 1)\<rparr>,
              localStorage = Some b,
              clockReads = n + 2,
              widgetElement = False\<rparr>
        else createNewSession clk random (Some b) (n + 1))))"
  using assms by (cases b) (simp_all add: initializeSession_def Let_def)

text \<open>
  When \<^verbatim>\<open>initializeSession\<close> gives a tracker, it has started a new session or resumed
  a stored session that had not expired.
\<close>

lemma initializeSession_Inr:
  assumes "initializeSession clk random pathname stored n = Inr w"
  shows "w = saveSession clk (trackPageView clk pathname
               (createNewSession clk random stored (n + 1))) \<or>
         (\<exists>b s. stored = Some b \<and> JSON_parse b = Inr (ASession s) \<and>
                clk n - lastActivity s < sessionTimeout \<and>
                w = saveSession clk (trackPageView clk pathname
                      \<lparr>sessionData = s\<lparr>lastActivity := clk (n + 1)\<rparr>,
                       localStorage = stored,
                       clockReads = n + 2,
                       widgetElement = False\<rparr>))"
  using assms
  by (auto simp: initializeSession_def Let_def
      split: option.splits if_splits sum.splits parsed.splits observed.splits)

text \<open>A new session has the same log and counters whatever the store held.\<close>

lemma fresh_start_sessionData:
  "sessionData (saveSession clk (trackPageView clk pathname
       (createNewSession clk random stored k))) =
     \<lparr>sessionId = SessionId (clk k) random,
      startTime = clk (k + 1),
      lastActivity = clk (k + 5),
      activities = [pageViewAt (clk (k + 3)) pathname],
      stats = \<lparr>pagesViewed = 1, totalClicks = 0, formsSubmitted = 0\<rparr>\<rparr>"
  by (simp add: saveSession_sessionData trackPageView_sessionData trackPageView_clockReads
      createNewSession_def add.commute)

lemma fresh_start_as_absent:
  "saveSession clk (trackPageView clk pathname (createNewSession clk random stored k)) =
   saveSession clk (trackPageView clk pathname (createNewSession clk random None k))"
  by (simp add: saveSession_def trackPageView_def createNewSession_def Let_def)

text \<open>
  Initialization reads the stored text and replaces it: a session's text spelled
  otherwise leads to the same tracker as the text that \<^verbatim>\<open>JSON.stringify\<close> writes.
\<close>

lemma initializeSession_respelled:
  "initializeSession clk random pathname (Some (Respelled sp s)) n =
   initializeSession clk random pathname (Some (Serialized s)) n"
  by (simp add: initializeSession_def Let_def saveSession_def trackPageView_def
      createNewSession_def)
subsection \<open>The counters and the log\<close>

lemma count_where_append:
  "count_where P (xs @ [a]) = count_where P xs + (if P a then 1 else 0)"
  by (simp add: count_where_def)

lemma count_where_update:
  "i < length xs \<Longrightarrow> P a = P (xs ! i) \<Longrightarrow> count_where P (xs[i := a]) = count_where P xs"
proof (induction xs arbitrary: i)
  case Nil
  then show ?case by simp
next
  case (Cons x xs)
  then show ?case by (cases i) (auto simp: count_where_def)
qed

lemma stats_match_saveSession:
  "stats_match (sessionData (saveSession clk w)) = stats_match (sessionData w)"
  by (simp add: saveSession_def stats_match_def Let_def)

lemma stats_match_trackPageView:
  "stats_match (sessionData w) \<Longrightarrow> stats_match (sessionData (trackPageView clk pathname w))"
  by (simp add: trackPageView_def saveSession_def stats_match_def Let_def count_where_append
      isPageView_def isClick_def isSubmit_def)

lemma stats_match_trackClick:
  "stats_match (sessionData w) \<Longrightarrow>
   stats_match (sessionData (trackClick clk elementText durationElement w))"
  by (simp add: trackClick_def saveSession_def stats_match_def Let_def count_where_append
      isPageView_def isClick_def isSubmit_def updateStats_sessionData)

lemma stats_match_trackFormSubmit:
  "stats_match (sessionData w) \<Longrightarrow>
   stats_match (sessionData (trackFormSubmit clk formId durationElement w))"
  by (simp add: trackFormSubmit_def saveSession_def stats_match_def Let_def count_where_append
      isPageView_def isClick_def isSubmit_def updateStats_sessionData)

lemma stats_match_scrollLoop:
  "k \<le> length (activities (sessionData w)) \<Longrightarrow> stats_match (sessionData w) \<Longrightarrow>
   stats_match (sessionData (scrollLoop clk percentage w k))"
proof (induction k)
  case 0
  then show ?case by simp
next
  case (Suc i)
  then show ?case
    by (simp add: Let_def stats_match_saveSession)
       (simp add: stats_match_def count_where_update isPageView_def isClick_def isSubmit_def)
qed

text \<open>
  C1. In every state that a tracker reaches from a fresh session, by any sequence of
  page views, clicks, form submissions and scroll updates (and of saves and redraws),
  \<^verbatim>\<open>stats.pagesViewed\<close> is the number of records of type \<^verbatim>\<open>pageview\<close> in the log,
  \<^verbatim>\<open>stats.totalClicks\<close> the number of interaction records with action \<^verbatim>\<open>click\<close>, and
  \<^verbatim>\<open>stats.formsSubmitted\<close> the number of interaction records with action \<^verbatim>\<open>submit\<close>.
\<close>

theorem stats_match_reachable:
  "reachable clk w \<Longrightarrow> stats_match (sessionData w)"
proof (induction rule: reachable.induct)
  case (fresh random stored n)
  show ?case by (simp add: createNewSession_def stats_match_def count_where_def)
next
  case (scroll w docScrollHeight innerHeight scrollY)
  then show ?case by (simp add: updateScrollPercentage_def stats_match_scrollLoop)
next
  case (render w)
  then show ?case by (simp add: renderWidget_def)
qed (simp_all add: stats_match_saveSession updateStats_sessionData stats_match_trackPageView
      stats_match_trackClick stats_match_trackFormSubmit)

theorem stats_match_reachable_witness:
  "reachable (ticking 1000 1)
     (updateScrollPercentage (ticking 1000 1) 900 800 42
        (trackFormSubmit (ticking 1000 1) ''checkout'' True
           (trackClick (ticking 1000 1) ''Buy'' True
              (trackPageView (ticking 1000 1) ''/shop/cart.html''
                 (createNewSession (ticking 1000 1) ''k3f9xa'' None 0))))) \<and>
   stats_match (sessionData
     (updateScrollPercentage (ticking 1000 1) 900 800 42
        (trackFormSubmit (ticking 1000 1) ''checkout'' True
           (trackClick (ticking 1000 1) ''Buy'' True
              (trackPageView (ticking 1000 1) ''/shop/cart.html''
                 (createNewSession (ticking 1000 1) ''k3f9xa'' None 0))))))"
proof -
  have r: "reachable (ticking 1000 1)
     (updateScrollPercentage (ticking 1000 1) 900 800 42
        (trackFormSubmit (ticking 1000 1) ''checkout'' True
           (trackClick (ticking 1000 1) ''Buy'' True
              (trackPageView (ticking 1000 1) ''/shop/cart.html''
                 (createNewSession (ticking 1000 1) ''k3f9xa'' None 0)))))"
    by (intro reachable.intros)
  from r stats_match_reachable [OF r] show ?thesis by (rule conjI)
qed

subsection \<open>Time\<close>

text \<open>
  C7. For every session and all times \<open>now1 \<le> now2\<close>, the duration shown at \<open>now1\<close>,
  \<open>\<lfloor>(now1 - startTime) / 60000\<rfloor>\<close> minutes, is at most the duration shown at \<open>now2\<close>.
\<close>

theorem durationMinutes_mono:
  "now1 \<le> now2 \<Longrightarrow> durationMinutes sd now1 \<le> durationMinutes sd now2"
  by (simp add: durationMinutes_def zdiv_mono1)

theorem durationMinutes_mono_witness:
  "(119999::int) \<le> 120000 \<and>
   durationMinutes storedExample 119999 \<le> durationMinutes storedExample 120000 \<and>
   durationMinutes storedExample 119999 = 1 \<and> durationMinutes storedExample 120000 = 2"
proof -
  have h: "(119999::int) \<le> 120000" by simp
  from durationMinutes_mono [OF h, of storedExample] show ?thesis
    by (simp add: durationMinutes_def storedExample_def)
qed

subsection \<open>Tracking\<close>

text \<open>
  C9. Each tracking operation adds one to its own counter and leaves the other two as
  they are: \<^verbatim>\<open>trackPageView\<close> counts in \<^verbatim>\<open>pagesViewed\<close>, \<^verbatim>\<open>trackClick\<close> in
  \<^verbatim>\<open>totalClicks\<close>, \<^verbatim>\<open>trackFormSubmit\<close> in \<^verbatim>\<open>formsSubmitted\<close>. None of them changes
  \<^verbatim>\<open>sessionId\<close> or \<^verbatim>\<open>startTime\<close>, and the log afterwards is the log before with the
  one new record at its end. The counter that is raised is one that a double counts
  exactly, below \<open>2 ^ 53\<close> in magnitude, as is every counter of a session that started
  fresh; the rest holds of every counter.
\<close>

theorem tracking_frame:
  "(\<bar>pagesViewed (stats (sessionData w))\<bar> < 2 ^ 53 \<longrightarrow>
      pagesViewed (stats (sessionData (trackPageView clk pathname w)))
        = pagesViewed (stats (sessionData w)) + 1) \<and>
   totalClicks (stats (sessionData (trackPageView clk pathname w)))
     = totalClicks (stats (sessionData w)) \<and>
   formsSubmitted (stats (sessionData (trackPageView clk pathname w)))
     = formsSubmitted (stats (sessionData w)) \<and>
   sessionId (sessionData (trackPageView clk pathname w)) = sessionId (sessionData w) \<and>
   startTime (sessionData (trackPageView clk pathname w)) = startTime (sessionData w) \<and>
   activities (sessionData (trackPageView clk pathname w))
     = activities (sessionData w) @ [pageViewAt (clk (clockReads w)) pathname] \<and>
   pagesViewed (stats (sessionData (trackClick clk elementText durationElement w)))
     = pagesViewed (stats (sessionData w)) \<and>
   (\<bar>totalClicks (stats (sessionData w))\<bar> < 2 ^ 53 \<longrightarrow>
      totalClicks (stats (sessionData (trackClick clk elementText durationElement w)))
        = totalClicks (stats (sessionData w)) + 1) \<and>
   formsSubmitted (stats (sessionData (trackClick clk elementText durationElement w)))
     = formsSubmitted (stats (sessionData w)) \<and>
   sessionId (sessionData (trackClick clk elementText durationElement w))
     = sessionId (sessionData w) \<and>
   startTime (sessionData (trackClick clk elementText durationElement w))
     = startTime (sessionData w) \<and>
   activities (sessionData (trackClick clk elementText durationElement w))
     = activities (sessionData w) @
        [\<lparr>type = ''interaction'', timestamp = clk (clockReads w),
          details = \<lparr>page = None, scrollPercentage = None, action = Some ''click'',
                     element = Some elementText, form = None\<rparr>\<rparr>] \<and>
   pagesViewed (stats (sessionData (trackFormSubmit clk formId durationElement w)))
     = pagesViewed (stats (sessionData w)) \<and>
   totalClicks (stats (sessionData (trackFormSubmit clk formId durationElement w)))
     = totalClicks (stats (sessionData w)) \<and>
   (\<bar>formsSubmitted (stats (sessionData w))\<bar> < 2 ^ 53 \<longrightarrow>
      formsSubmitted (stats (sessionData (trackFormSubmit clk formId durationElement w)))
        = formsSubmitted (stats (sessionData w)) + 1) \<and>
   sessionId (sessionData (trackFormSubmit clk formId durationElement w))
     = sessionId (sessionData w) \<and>
   startTime (sessionData (trackFormSubmit clk formId durationElement w))
     = startTime (sessionData w) \<and>
   activities (sessionData (trackFormSubmit clk formId durationElement w))
     = activities (sessionData w) @
        [\<lparr>type = ''interaction'', timestamp = clk (clockReads w),
          details = \<lparr>page = None, scrollPercentage = None, action = Some ''submit'',
                     element = None, form = Some formId\<rparr>\<rparr>]"
  by (simp add: trackPageView_def trackClick_def trackFormSubmit_def Let_def
      saveSession_sessionData updateStats_sessionData pageViewAt_def)

theorem tracking_frame_witness:
  "\<bar>pagesViewed (stats (sessionData trackerExample))\<bar> < 2 ^ 53 \<and>
   \<bar>totalClicks (stats (sessionData trackerExample))\<bar> < 2 ^ 53 \<and>
   \<bar>formsSubmitted (stats (sessionData trackerExample))\<bar> < 2 ^ 53 \<and>
   stats (sessionData (trackPageView (ticking 1000 1) ''/shop/cart.html'' trackerExample))
     = \<lparr>pagesViewed = 3, totalClicks = 1, formsSubmitted = 1\<rparr> \<and>
   stats (sessionData (trackClick (ticking 1000 1) ''Buy'' True trackerExample))
     = \<lparr>pagesViewed = 2, totalClicks = 2, formsSubmitted = 1\<rparr> \<and>
   stats (sessionData (trackFormSubmit (ticking 1000 1) ''checkout'' True trackerExample))
     = \<lparr>pagesViewed = 2, totalClicks = 1, formsSubmitted = 2\<rparr>"
proof -
  have safe: "\<bar>pagesViewed (stats (sessionData trackerExample))\<bar> < 2 ^ 53"
    "\<bar>totalClicks (stats (sessionData trackerExample))\<bar> < 2 ^ 53"
    "\<bar>formsSubmitted (stats (sessionData trackerExample))\<bar> < 2 ^ 53"
    by (simp_all add: trackerExample_def storedExample_def)
  have before: "stats (sessionData trackerExample)
      = \<lparr>pagesViewed = 2, totalClicks = 1, formsSubmitted = 1\<rparr>"
    by (simp add: trackerExample_def storedExample_def)
  from tracking_frame
    [of trackerExample "ticking 1000 1" "''/shop/cart.html''" "''Buy''" True "''checkout''"]
    safe
  have "pagesViewed (stats (sessionData
          (trackPageView (ticking 1000 1) ''/shop/cart.html'' trackerExample))) = 3"
    "totalClicks (stats (sessionData
          (trackPageView (ticking 1000 1) ''/shop/cart.html'' trackerExample))) = 1"
    "formsSubmitted (stats (sessionData
          (trackPageView (ticking 1000 1) ''/shop/cart.html'' trackerExample))) = 1"
    "pagesViewed (stats (sessionData
          (trackClick (ticking 1000 1) ''Buy'' True trackerExample))) = 2"
    "totalClicks (stats (sessionData
          (trackClick (ticking 1000 1) ''Buy'' True trackerExample))) = 2"
    "formsSubmitted (stats (sessionData
          (trackClick (ticking 1000 1) ''Buy'' True trackerExample))) = 1"
    "pagesViewed (stats (sessionData
          (trackFormSubmit (ticking 1000 1) ''checkout'' True trackerExample))) = 2"
    "totalClicks (stats (sessionData
          (trackFormSubmit (ticking 1000 1) ''checkout'' True trackerExample))) = 1"
    "formsSubmitted (stats (sessionData
          (trackFormSubmit (ticking 1000 1) ''checkout'' True trackerExample))) = 2"
    by (simp_all add: before)
  then have after: "stats (sessionData
        (trackPageView (ticking 1000 1) ''/shop/cart.html'' trackerExample))
      = \<lparr>pagesViewed = 3, totalClicks = 1, formsSubmitted = 1\<rparr>"
    "stats (sessionData (trackClick (ticking 1000 1) ''Buy'' True trackerExample))
      = \<lparr>pagesViewed = 2, totalClicks = 2, formsSubmitted = 1\<rparr>"
    "stats (sessionData (trackFormSubmit (ticking 1000 1) ''checkout'' True trackerExample))
      = \<lparr>pagesViewed = 2, totalClicks = 1, formsSubmitted = 2\<rparr>"
    by (simp_all add: stats.equality)
  from safe after show ?thesis by (intro conjI)
qed

text \<open>
  C10. \<^verbatim>\<open>saveSession\<close> sets \<^verbatim>\<open>lastActivity\<close> to the reading of the clock that it takes
  itself, and writes the session with that value. So after \<^verbatim>\<open>trackPageView\<close>,
  \<^verbatim>\<open>trackClick\<close> and \<^verbatim>\<open>trackFormSubmit\<close> the stored \<^verbatim>\<open>lastActivity\<close> is the reading
  taken by the save, the one after the reading that stamps the new record; and after a
  scroll update that finds a page view it is the reading taken by the save as well.
\<close>

theorem persisted_lastActivity_is_save_time:
  "lastActivity (sessionData (saveSession clk w)) = clk (clockReads w) \<and>
   localStorage (saveSession clk w) = Some (JSON_stringify (sessionData (saveSession clk w))) \<and>
   persistedLastActivity (localStorage (saveSession clk w)) = Some (clk (clockReads w)) \<and>
   persistedLastActivity (localStorage (trackPageView clk pathname w))
     = Some (clk (Suc (clockReads w))) \<and>
   timestamp (last (activities (sessionData (trackPageView clk pathname w))))
     = clk (clockReads w) \<and>
   persistedLastActivity (localStorage (trackClick clk elementText durationElement w))
     = Some (clk (Suc (clockReads w))) \<and>
   timestamp (last (activities (sessionData (trackClick clk elementText durationElement w))))
     = clk (clockReads w) \<and>
   persistedLastActivity (localStorage (trackFormSubmit clk formId durationElement w))
     = Some (clk (Suc (clockReads w))) \<and>
   timestamp (last (activities (sessionData (trackFormSubmit clk formId durationElement w))))
     = clk (clockReads w) \<and>
   ((\<exists>a \<in> set (activities (sessionData w)). type a = ''pageview'') \<longrightarrow>
      persistedLastActivity
        (localStorage (updateScrollPercentage clk docScrollHeight innerHeight scrollY w))
      = Some (clk (clockReads w)))"
proof -
  let ?k = "length (activities (sessionData w))"
  let ?p = "scrollPercentageOf docScrollHeight innerHeight scrollY"
  have scroll: "persistedLastActivity (localStorage (scrollLoop clk ?p w ?k))
      = Some (clk (clockReads w))"
    if found: "\<exists>a \<in> set (activities (sessionData w)). type a = ''pageview''"
  proof -
    from found obtain i where "i < ?k" "type (activities (sessionData w) ! i) = ''pageview''"
      by (auto simp: in_set_conv_nth)
    with scrollLoop_saves [of clk ?p w ?k] obtain acts' where
      "scrollLoop clk ?p w ?k =
         saveSession clk (w\<lparr>sessionData := (sessionData w)\<lparr>activities := acts'\<rparr>\<rparr>)"
      by blast
    then show ?thesis by (simp add: saveSession_localStorage)
  qed
  show ?thesis
    by (simp add: trackPageView_def trackClick_def trackFormSubmit_def Let_def
        saveSession_sessionData saveSession_localStorage updateStats_localStorage
        updateStats_sessionData JSON_stringify_def updateScrollPercentage_def scroll)
qed

theorem persisted_lastActivity_is_save_time_witness:
  "type (activities (sessionData trackerExample) ! 2) = ''pageview'' \<and>
   persistedLastActivity
     (localStorage (updateScrollPercentage (ticking 1000 1) 900 800 42 trackerExample))
     = Some 1000 \<and>
   persistedLastActivity (localStorage (trackClick (ticking 1000 1) ''Buy'' True trackerExample))
     = Some 1001 \<and>
   timestamp (last (activities (sessionData
      (trackClick (ticking 1000 1) ''Buy'' True trackerExample)))) = 1000"
proof -
  have h: "\<exists>a \<in> set (activities (sessionData trackerExample)). type a = ''pageview''"
    by (simp add: trackerExample_def storedExample_def)
  have p: "type (activities (sessionData trackerExample) ! 2) = ''pageview''"
    by (simp add: trackerExample_def storedExample_def)
  from persisted_lastActivity_is_save_time
    [of "ticking 1000 1" trackerExample _ "''Buy''" True _ 900 800 42] h
  have "persistedLastActivity
     (localStorage (updateScrollPercentage (ticking 1000 1) 900 800 42 trackerExample))
     = Some 1000 \<and>
   persistedLastActivity (localStorage (trackClick (ticking 1000 1) ''Buy'' True trackerExample))
     = Some 1001 \<and>
   timestamp (last (activities (sessionData
      (trackClick (ticking 1000 1) ''Buy'' True trackerExample)))) = 1000"
    by (simp add: ticking_def trackerExample_def)
  with p show ?thesis by (intro conjI) simp_all
qed

subsection \<open>Scroll updates\<close>

text \<open>
  C4. When the log is some records, then a page view \<open>p\<close>, then records none of which
  is a page view (interactions, as in \<^verbatim>\<open>[..., A, P1, B]\<close>), the scroll update sets the
  \<^verbatim>\<open>scrollPercentage\<close> of \<open>p\<close> to the percentage computed from the page, and every other
  record, before and after \<open>p\<close>, stays as it is, as do the other properties of \<open>p\<close>. When
  the log holds no page view the operation changes nothing at all.
\<close>

theorem scroll_updates_latest_pageview:
  "(activities (sessionData w) = pre @ [p] @ post \<and> type p = ''pageview'' \<and>
    (\<forall>a \<in> set post. type a \<noteq> ''pageview'') \<longrightarrow>
      activities (sessionData (updateScrollPercentage clk docScrollHeight innerHeight scrollY w))
        = pre @ [withScroll (scrollPercentageOf docScrollHeight innerHeight scrollY) p] @ post \<and>
      scrollPercentage (details
          (withScroll (scrollPercentageOf docScrollHeight innerHeight scrollY) p))
        = Some (scrollPercentageOf docScrollHeight innerHeight scrollY) \<and>
      type (withScroll (scrollPercentageOf docScrollHeight innerHeight scrollY) p) = type p \<and>
      timestamp (withScroll (scrollPercentageOf docScrollHeight innerHeight scrollY) p)
        = timestamp p \<and>
      page (details (withScroll (scrollPercentageOf docScrollHeight innerHeight scrollY) p))
        = page (details p)) \<and>
   ((\<forall>a \<in> set (activities (sessionData w)). type a \<noteq> ''pageview'') \<longrightarrow>
      updateScrollPercentage clk docScrollHeight innerHeight scrollY w = w)"
proof (intro conjI impI)
  assume "\<forall>a \<in> set (activities (sessionData w)). type a \<noteq> ''pageview''"
  then have "\<forall>i<length (activities (sessionData w)).
      type (activities (sessionData w) ! i) \<noteq> ''pageview''"
    by simp
  then show "updateScrollPercentage clk docScrollHeight innerHeight scrollY w = w"
    by (simp add: updateScrollPercentage_def scrollLoop_miss)
next
  assume "activities (sessionData w) = pre @ [p] @ post \<and> type p = ''pageview'' \<and>
    (\<forall>a \<in> set post. type a \<noteq> ''pageview'')"
  then show "activities
      (sessionData (updateScrollPercentage clk docScrollHeight innerHeight scrollY w))
    = pre @ [withScroll (scrollPercentageOf docScrollHeight innerHeight scrollY) p] @ post"
    by (simp add: scrollLoop_shape [of w pre p post] saveSession_sessionData)
qed (simp_all add: withScroll_def)

theorem scroll_updates_latest_pageview_witness:
  "activities (sessionData trackerExample)
     = [activities storedExample ! 0, activities storedExample ! 1]
       @ [activities storedExample ! 2] @ [activities storedExample ! 3] \<and>
   type (activities storedExample ! 2) = ''pageview'' \<and>
   type (activities storedExample ! 3) \<noteq> ''pageview'' \<and>
   scrollPercentageOf 900 800 42 = 42 \<and>
   activities (sessionData (updateScrollPercentage (ticking 1000 1) 900 800 42 trackerExample))
     = [activities storedExample ! 0, activities storedExample ! 1]
       @ [withScroll 42 (activities storedExample ! 2)] @ [activities storedExample ! 3] \<and>
   activities (sessionData (createNewSession (ticking 1000 1) ''k3f9xa'' None 0)) = [] \<and>
   updateScrollPercentage (ticking 1000 1) 900 800 42
       (createNewSession (ticking 1000 1) ''k3f9xa'' None 0)
     = createNewSession (ticking 1000 1) ''k3f9xa'' None 0"
proof -
  have shape: "activities (sessionData trackerExample)
     = [activities storedExample ! 0, activities storedExample ! 1]
       @ [activities storedExample ! 2] @ [activities storedExample ! 3]"
    by (simp add: trackerExample_def storedExample_def)
  have p: "type (activities storedExample ! 2) = ''pageview''"
    by (simp add: storedExample_def)
  have post: "\<forall>a \<in> set [activities storedExample ! 3]. type a \<noteq> ''pageview''"
    by (simp add: storedExample_def)
  have pct: "scrollPercentageOf 900 800 42 = 42"
    by code_simp
  have empty: "activities (sessionData (createNewSession (ticking 1000 1) ''k3f9xa'' None 0)) = []"
    by (simp add: createNewSession_def)
  then have none: "\<forall>a \<in> set (activities (sessionData
        (createNewSession (ticking 1000 1) ''k3f9xa'' None 0))). type a \<noteq> ''pageview''"
    by simp
  have last: "type (activities storedExample ! 3) \<noteq> ''pageview''"
    by (simp add: storedExample_def)
  from scroll_updates_latest_pageview
    [of trackerExample "[activities storedExample ! 0, activities storedExample ! 1]"
      "activities storedExample ! 2" "[activities storedExample ! 3]"
      "ticking 1000 1" 900 800 42]
    shape p post pct
  have one: "activities (sessionData
        (updateScrollPercentage (ticking 1000 1) 900 800 42 trackerExample))
     = [activities storedExample ! 0, activities storedExample ! 1]
       @ [withScroll 42 (activities storedExample ! 2)] @ [activities storedExample ! 3]"
    by simp
  from scroll_updates_latest_pageview
    [of "createNewSession (ticking 1000 1) ''k3f9xa'' None 0" "[]" "activities storedExample ! 2" "[]"
      "ticking 1000 1" 900 800 42] none
  have two: "updateScrollPercentage (ticking 1000 1) 900 800 42
       (createNewSession (ticking 1000 1) ''k3f9xa'' None 0)
     = createNewSession (ticking 1000 1) ''k3f9xa'' None 0"
    by blast
  from shape p last pct one empty two show ?thesis by (intro conjI)
qed

text \<open>
  C5, as the code has it. The scroll update stores on the most recent page view the
  percentage as computed, \<open>round (scrollY / (scrollHeight - innerHeight) * 100)\<close> in
  double arithmetic, or 0 when the denominator is not positive, and does not clamp it.
  The stored value is in the range from 0 to 100 whenever
  \<open>0 \<le> scrollY \<le> scrollHeight - innerHeight\<close>.
\<close>

theorem scroll_percentage_unclamped:
  "(activities (sessionData w) = pre @ [p] @ post \<and> type p = ''pageview'' \<and>
    (\<forall>a \<in> set post. type a \<noteq> ''pageview'') \<and>
    percentageIsFinite docScrollHeight innerHeight scrollY \<longrightarrow>
      scrollPercentage (details (activities (sessionData
          (updateScrollPercentage clk docScrollHeight innerHeight scrollY w)) ! length pre))
        = Some (scrollPercentageOf docScrollHeight innerHeight scrollY)) \<and>
   (0 < docScrollHeight - innerHeight \<longrightarrow>
      scrollPercentageOf docScrollHeight innerHeight scrollY
        = Math_round (toDouble
            (toDouble (scrollY / of_int (docScrollHeight - innerHeight)) * 100))) \<and>
   (docScrollHeight - innerHeight \<le> 0 \<longrightarrow>
      scrollPercentageOf docScrollHeight innerHeight scrollY = 0) \<and>
   (0 \<le> scrollY \<and> scrollY \<le> of_int (docScrollHeight - innerHeight) \<longrightarrow>
      0 \<le> scrollPercentageOf docScrollHeight innerHeight scrollY \<and>
      scrollPercentageOf docScrollHeight innerHeight scrollY \<le> 100)"
proof (intro conjI impI)
  assume "activities (sessionData w) = pre @ [p] @ post \<and> type p = ''pageview'' \<and>
    (\<forall>a \<in> set post. type a \<noteq> ''pageview'') \<and>
    percentageIsFinite docScrollHeight innerHeight scrollY"
  then show "scrollPercentage (details (activities (sessionData
          (updateScrollPercentage clk docScrollHeight innerHeight scrollY w)) ! length pre))
        = Some (scrollPercentageOf docScrollHeight innerHeight scrollY)"
    by (simp add: scrollLoop_shape [of w pre p post] saveSession_sessionData withScroll_def)
next
  assume range: "0 \<le> scrollY \<and> scrollY \<le> of_int (docScrollHeight - innerHeight)"
  then show "0 \<le> scrollPercentageOf docScrollHeight innerHeight scrollY"
    and "scrollPercentageOf docScrollHeight innerHeight scrollY \<le> 100"
    using scrollPercentageOf_range [of scrollY docScrollHeight innerHeight] by simp_all
qed (simp_all add: scrollPercentageOf_def)

theorem scroll_percentage_unclamped_witness:
  "activities (sessionData trackerExample)
     = [activities storedExample ! 0, activities storedExample ! 1]
       @ [activities storedExample ! 2] @ [activities storedExample ! 3] \<and>
   type (activities storedExample ! 2) = ''pageview'' \<and>
   type (activities storedExample ! 3) \<noteq> ''pageview'' \<and>
   percentageIsFinite 840 800 23 \<and>
   scrollPercentage (details (activities (sessionData
       (updateScrollPercentage (ticking 1000 1) 840 800 23 trackerExample)) ! 2)) = Some 57 \<and>
   (0::int) < 840 - 800 \<and> (0::rat) \<le> 23 \<and> (23::rat) \<le> of_int (840 - 800) \<and>
   0 \<le> scrollPercentageOf 840 800 23 \<and> scrollPercentageOf 840 800 23 \<le> 100 \<and>
   (800::int) - 800 \<le> 0 \<and> scrollPercentageOf 800 800 23 = 0"
proof -
  have shape: "activities (sessionData trackerExample)
     = [activities storedExample ! 0, activities storedExample ! 1]
       @ [activities storedExample ! 2] @ [activities storedExample ! 3]"
    by (simp add: trackerExample_def storedExample_def)
  have p: "type (activities storedExample ! 2) = ''pageview''"
    by (simp add: storedExample_def)
  have last: "type (activities storedExample ! 3) \<noteq> ''pageview''"
    by (simp add: storedExample_def)
  then have post: "\<forall>a \<in> set [activities storedExample ! 3]. type a \<noteq> ''pageview''"
    by simp
  have finite: "percentageIsFinite 840 800 23"
    by code_simp
  have pct: "scrollPercentageOf 840 800 23 = 57"
    by code_simp
  from scroll_percentage_unclamped
    [of trackerExample "[activities storedExample ! 0, activities storedExample ! 1]"
      "activities storedExample ! 2" "[activities storedExample ! 3]"
      840 800 23 "ticking 1000 1"]
    shape p post finite pct
  have one: "scrollPercentage (details (activities (sessionData
       (updateScrollPercentage (ticking 1000 1) 840 800 23 trackerExample)) ! 2)) = Some 57 \<and>
     0 \<le> scrollPercentageOf 840 800 23 \<and> scrollPercentageOf 840 800 23 \<le> 100"
    by (simp add: numeral_2_eq_2)
  from scroll_percentage_unclamped [of _ _ _ _ 800 800 23]
  have two: "scrollPercentageOf 800 800 23 = 0" by simp
  from shape p last finite one two show ?thesis by simp
qed

text \<open>
  The claim fails where the page reports a scroll position outside the scrollable
  range: with a scrollable height of 100, a position of 150 is stored as 150, and a
  position of -5 as -5.
\<close>

theorem scroll_percentage_clamp_counterexample:
  "percentageIsFinite 900 800 150 \<and> percentageIsFinite 900 800 (- 5) \<and>
   scrollPercentage (details (activities (sessionData
      (updateScrollPercentage (ticking 1000 1) 900 800 150 trackerExample)) ! 2)) = Some 150 \<and>
   scrollPercentage (details (activities (sessionData
      (updateScrollPercentage (ticking 1000 1) 900 800 (- 5) trackerExample)) ! 2)) = Some (- 5)"
  by code_simp


subsection \<open>Initialization and the store\<close>

text \<open>
  C2, as the code has it. Let the store hold a session with \<^verbatim>\<open>lastActivity = t0\<close>, and
  let \<open>now\<close> be the first reading of the clock in \<^verbatim>\<open>initializeSession\<close>. If
  \<open>now - t0 \<ge> 3600000\<close>, the resulting session has the identifier made from the next
  reading of the clock and the random string, and its log holds none of the stored
  records: it is exactly the one new page view. That identifier differs from the stored
  one whenever the stored one was made at or before \<open>t0\<close> and the clock has not gone
  back. If \<open>now - t0 < 3600000\<close>, the identifier is the stored one and the log is the
  stored log with exactly one new page view appended. It makes no difference whether
  the stored text is the one that \<^verbatim>\<open>JSON.stringify\<close> writes or the same session spelled
  otherwise.
\<close>

theorem initializeSession_expiry:
  "(sessionTimeout = 3600000) \<and>
   (clk n - lastActivity s \<ge> 3600000 \<longrightarrow>
      (\<exists>w. initializeSession clk random pathname (Some (Serialized s)) n = Inr w \<and>
           sessionId (sessionData w) = SessionId (clk (n + 1)) random \<and>
           activities (sessionData w) = [pageViewAt (clk (n + 4)) pathname] \<and>
           (idTimestamp (sessionId s) \<le> lastActivity s \<and> clk n \<le> clk (n + 1) \<longrightarrow>
              sessionId (sessionData w) \<noteq> sessionId s))) \<and>
   (clk n - lastActivity s < 3600000 \<longrightarrow>
      (\<exists>w. initializeSession clk random pathname (Some (Serialized s)) n = Inr w \<and>
           sessionId (sessionData w) = sessionId s \<and>
           activities (sessionData w) = activities s @ [pageViewAt (clk (n + 2)) pathname])) \<and>
   initializeSession clk random pathname (Some (Respelled sp s)) n
     = initializeSession clk random pathname (Some (Serialized s)) n"
proof (intro conjI impI)
  show "sessionTimeout = 3600000" by (simp add: sessionTimeout_def)
next
  assume expired: "3600000 \<le> clk n - lastActivity s"
  have new: "idTimestamp (sessionId s) \<le> lastActivity s \<and> clk n \<le> clk (n + 1) \<longrightarrow>
      SessionId (clk (n + 1)) random \<noteq> sessionId s"
  proof (intro impI notI, elim conjE)
    assume "idTimestamp (sessionId s) \<le> lastActivity s" "clk n \<le> clk (n + 1)"
      and "SessionId (clk (n + 1)) random = sessionId s"
    then have "clk n \<le> lastActivity s"
      by (metis order_trans session_id.sel(1))
    with expired show False by simp
  qed
  from expired new
  show "\<exists>w. initializeSession clk random pathname (Some (Serialized s)) n = Inr w \<and>
           sessionId (sessionData w) = SessionId (clk (n + 1)) random \<and>
           activities (sessionData w) = [pageViewAt (clk (n + 4)) pathname] \<and>
           (idTimestamp (sessionId s) \<le> lastActivity s \<and> clk n \<le> clk (n + 1) \<longrightarrow>
              sessionId (sessionData w) \<noteq> sessionId s)"
    by (simp add: initializeSession_stored sessionTimeout_def saveSession_sessionData
        trackPageView_sessionData createNewSession_def add.commute)
next
  assume "clk n - lastActivity s < 3600000"
  then show "\<exists>w. initializeSession clk random pathname (Some (Serialized s)) n = Inr w \<and>
           sessionId (sessionData w) = sessionId s \<and>
           activities (sessionData w) = activities s @ [pageViewAt (clk (n + 2)) pathname]"
    by (simp add: initializeSession_stored sessionTimeout_def saveSession_sessionData
        trackPageView_sessionData)
next
  show "initializeSession clk random pathname (Some (Respelled sp s)) n
     = initializeSession clk random pathname (Some (Serialized s)) n"
    by (rule initializeSession_respelled)
qed

theorem initializeSession_expiry_witness:
  "ticking 3600500 1 0 - lastActivity storedExample \<ge> 3600000 \<and>
   idTimestamp (sessionId storedExample) \<le> lastActivity storedExample \<and>
   ticking 3600500 1 0 \<le> ticking 3600500 1 (0 + 1) \<and>
   (\<exists>w. initializeSession (ticking 3600500 1) ''x7q2mz'' ''/shop/cart.html''
          (Some (Serialized storedExample)) 0 = Inr w \<and>
        sessionId (sessionData w) = SessionId 3600501 ''x7q2mz'' \<and>
        activities (sessionData w) = [pageViewAt 3600504 ''/shop/cart.html''] \<and>
        sessionId (sessionData w) \<noteq> sessionId storedExample) \<and>
   ticking 3600499 1 0 - lastActivity storedExample < 3600000 \<and>
   (\<exists>w. initializeSession (ticking 3600499 1) ''x7q2mz'' ''/shop/cart.html''
          (Some (Serialized storedExample)) 0 = Inr w \<and>
        sessionId (sessionData w) = sessionId storedExample \<and>
        activities (sessionData w)
          = activities storedExample @ [pageViewAt 3600501 ''/shop/cart.html''])"
proof -
  have late: "ticking 3600500 1 0 - lastActivity storedExample \<ge> 3600000"
    and made: "idTimestamp (sessionId storedExample) \<le> lastActivity storedExample"
    and fwd: "ticking 3600500 1 0 \<le> ticking 3600500 1 (0 + 1)"
    and early: "ticking 3600499 1 0 - lastActivity storedExample < 3600000"
    by (simp_all add: ticking_def storedExample_def)
  have t: "ticking 3600500 1 (0 + 1) = 3600501" "ticking 3600500 1 (0 + 4) = 3600504"
    "ticking 3600499 1 (0 + 2) = 3600501"
    by (simp_all add: ticking_def)
  from initializeSession_expiry
    [of "ticking 3600500 1" 0 storedExample "''x7q2mz''" "''/shop/cart.html''"]
    late made fwd
  have one: "\<exists>w. initializeSession (ticking 3600500 1) ''x7q2mz'' ''/shop/cart.html''
          (Some (Serialized storedExample)) 0 = Inr w \<and>
        sessionId (sessionData w) = SessionId 3600501 ''x7q2mz'' \<and>
        activities (sessionData w) = [pageViewAt 3600504 ''/shop/cart.html''] \<and>
        sessionId (sessionData w) \<noteq> sessionId storedExample"
    unfolding t by blast
  from initializeSession_expiry
    [of "ticking 3600499 1" 0 storedExample "''x7q2mz''" "''/shop/cart.html''"]
    early
  have two: "\<exists>w. initializeSession (ticking 3600499 1) ''x7q2mz'' ''/shop/cart.html''
          (Some (Serialized storedExample)) 0 = Inr w \<and>
        sessionId (sessionData w) = sessionId storedExample \<and>
        activities (sessionData w)
          = activities storedExample @ [pageViewAt 3600501 ''/shop/cart.html'']"
    unfolding t by blast
  from late made fwd one early two show ?thesis by (intro conjI)
qed

text \<open>
  The claim fails in its first half: after \<^verbatim>\<open>initializeSession\<close> on an expired session
  the log is not empty, it holds the page view that \<^verbatim>\<open>initializeSession\<close> always records.
  And the identifier is made anew, but nothing compares it with the stored one: for a
  stored session whose identifier carries a time after its \<^verbatim>\<open>lastActivity\<close> (the clock
  was set back), the new identifier can be the stored one.
\<close>

theorem initializeSession_expired_counterexample:
  "ticking 3600500 1 0 - lastActivity storedExample \<ge> 3600000 \<and>
   map_sum id (activities \<circ> sessionData)
     (initializeSession (ticking 3600500 1) ''x7q2mz'' ''/shop/cart.html''
        (Some (Serialized storedExample)) 0)
     = Inr [\<lparr>type = ''pageview'', timestamp = 3600504,
             details = \<lparr>page = Some ''cart.html'', scrollPercentage = Some 0,
                        action = None, element = None, form = None\<rparr>\<rparr>] \<and>
   ticking 3600500 1 0
     - lastActivity (storedExample\<lparr>sessionId := SessionId 3600501 ''x7q2mz''\<rparr>) \<ge> 3600000 \<and>
   map_sum id (sessionId \<circ> sessionData)
     (initializeSession (ticking 3600500 1) ''x7q2mz'' ''/shop/cart.html''
        (Some (Serialized (storedExample\<lparr>sessionId := SessionId 3600501 ''x7q2mz''\<rparr>))) 0)
     = Inr (sessionId (storedExample\<lparr>sessionId := SessionId 3600501 ''x7q2mz''\<rparr>))"
  by (simp add: initializeSession_stored sessionTimeout_def saveSession_sessionData
      trackPageView_sessionData createNewSession_def ticking_def storedExample_def
      pageViewAt_def pageNameOf_def last_segment_def)

text \<open>
  C3, as the code has it. A stored blob that is malformed is treated as absent, so that
  \<^verbatim>\<open>initializeSession\<close> creates a fresh session, records its first page view and saves
  it as it does with an empty store, in these cases: the text is empty; or the text
  parses to a value other than \<^verbatim>\<open>null\<close> whose \<^verbatim>\<open>lastActivity\<close> does not read as a time
  (as with \<^verbatim>\<open>{}\<close>, a number, a string or an array) or reads as a time 3600000 ms or
  more before now. In the other cases it is not: a text that is not empty and that
  \<^verbatim>\<open>JSON.parse\<close> rejects raises a \<^verbatim>\<open>SyntaxError\<close> to the caller; the text \<^verbatim>\<open>null\<close>
  raises a \<^verbatim>\<open>TypeError\<close>; a value whose \<^verbatim>\<open>lastActivity\<close> reads as a time less than
  3600000 ms before now raises a \<^verbatim>\<open>TypeError\<close> when its \<^verbatim>\<open>activities\<close> is not an array
  or its \<^verbatim>\<open>stats\<close> is not an object, and is otherwise resumed as it is, without an
  exception and without a fresh session.
\<close>

theorem initializeSession_malformed:
  "initializeSession clk random pathname None n =
     Inr (saveSession clk (trackPageView clk pathname
            (createNewSession clk random None (n + 1)))) \<and>
   sessionData (saveSession clk (trackPageView clk pathname
            (createNewSession clk random None (n + 1)))) =
     \<lparr>sessionId = SessionId (clk (n + 1)) random,
      startTime = clk (n + 2),
      lastActivity = clk (n + 6),
      activities = [pageViewAt (clk (n + 4)) pathname],
      stats = \<lparr>pagesViewed = 1, totalClicks = 0, formsSubmitted = 0\<rparr>\<rparr> \<and>
   initializeSession clk random pathname (Some (Unparsable [])) n
     = initializeSession clk random pathname None n \<and>
   initializeSession clk random pathname (Some (NotSession (OtherValue None a st))) n
     = initializeSession clk random pathname None n \<and>
   (3600000 \<le> clk n - t \<longrightarrow>
      initializeSession clk random pathname (Some (NotSession (OtherValue (Some t) a st))) n
        = initializeSession clk random pathname None n) \<and>
   (chars \<noteq> [] \<longrightarrow>
      initializeSession clk random pathname (Some (Unparsable chars)) n
        = Inl (Throws SyntaxError)) \<and>
   initializeSession clk random pathname (Some (NotSession NullValue)) n
     = Inl (Throws TypeError) \<and>
   (clk n - t < 3600000 \<and> \<not> (a \<and> st) \<longrightarrow>
      initializeSession clk random pathname (Some (NotSession (OtherValue (Some t) a st))) n
        = Inl (Throws TypeError)) \<and>
   (clk n - t < 3600000 \<longrightarrow>
      initializeSession clk random pathname
          (Some (NotSession (OtherValue (Some t) True True))) n
        = Inl ResumesOther)"
proof -
  let ?fresh = "\<lambda>stored. saveSession clk (trackPageView clk pathname
      (createNewSession clk random stored (n + 1)))"
  have absent: "initializeSession clk random pathname None n = Inr (?fresh None)"
    by (simp add: initializeSession_def)
  have as_absent: "initializeSession clk random pathname stored n
      = initializeSession clk random pathname None n"
    if "initializeSession clk random pathname stored n = Inr (?fresh stored)" for stored
    using that absent fresh_start_as_absent [of clk pathname random stored "n + 1"]
    by (simp only:)
  have empty: "initializeSession clk random pathname (Some (Unparsable [])) n
      = initializeSession clk random pathname None n"
    by (rule as_absent) (simp add: initializeSession_def)
  have nan: "initializeSession clk random pathname (Some (NotSession (OtherValue None a st))) n
      = initializeSession clk random pathname None n"
    by (rule as_absent) (simp add: initializeSession_def)
  have old: "initializeSession clk random pathname
        (Some (NotSession (OtherValue (Some t) a st))) n
      = initializeSession clk random pathname None n"
    if "3600000 \<le> clk n - t"
    using that by (intro as_absent) (simp add: initializeSession_def sessionTimeout_def)
  have data: "sessionData (?fresh None) =
     \<lparr>sessionId = SessionId (clk (n + 1)) random,
      startTime = clk (n + 2),
      lastActivity = clk (n + 6),
      activities = [pageViewAt (clk (n + 4)) pathname],
      stats = \<lparr>pagesViewed = 1, totalClicks = 0, formsSubmitted = 0\<rparr>\<rparr>"
    by (simp add: fresh_start_sessionData add.commute)
  show ?thesis
    by (intro conjI impI absent data empty nan old)
       (simp_all add: initializeSession_def Let_def sessionTimeout_def)
qed

theorem initializeSession_malformed_witness:
  "initializeSession (ticking 1000 1) ''x7q2mz'' ''/shop/cart.html''
       (Some (NotSession (OtherValue (Some 0) False False))) 3600000
     = initializeSession (ticking 1000 1) ''x7q2mz'' ''/shop/cart.html'' None 3600000 \<and>
   ''[object Object]'' \<noteq> [] \<and>
   initializeSession (ticking 1000 1) ''x7q2mz'' ''/shop/cart.html''
       (Some (Unparsable ''[object Object]'')) 0 = Inl (Throws SyntaxError) \<and>
   ticking 1000 1 0 - 900 < 3600000 \<and> \<not> (False \<and> True) \<and>
   initializeSession (ticking 1000 1) ''x7q2mz'' ''/shop/cart.html''
       (Some (NotSession (OtherValue (Some 900) False True))) 0 = Inl (Throws TypeError) \<and>
   initializeSession (ticking 1000 1) ''x7q2mz'' ''/shop/cart.html''
       (Some (NotSession (OtherValue (Some 900) True True))) 0 = Inl ResumesOther \<and>
   initializeSession (ticking 1000 1) ''x7q2mz'' ''/shop/cart.html''
       (Some (NotSession (OtherValue None False False))) 0
     = Inr (saveSession (ticking 1000 1) (trackPageView (ticking 1000 1) ''/shop/cart.html''
            (createNewSession (ticking 1000 1) ''x7q2mz'' None (0 + 1))))"
proof -
  have old: "3600000 \<le> ticking 1000 1 3600000 - 0"
    and ne: "''[object Object]'' \<noteq> []"
    and recent: "ticking 1000 1 0 - 900 < 3600000"
    and lacks: "\<not> (False \<and> True)"
    by (simp_all add: ticking_def)
  from initializeSession_malformed
    [of "ticking 1000 1" "''x7q2mz''" "''/shop/cart.html''" 3600000 False False 0] old
  have one: "initializeSession (ticking 1000 1) ''x7q2mz'' ''/shop/cart.html''
       (Some (NotSession (OtherValue (Some 0) False False))) 3600000
     = initializeSession (ticking 1000 1) ''x7q2mz'' ''/shop/cart.html'' None 3600000"
    by blast
  from initializeSession_malformed
    [of "ticking 1000 1" "''x7q2mz''" "''/shop/cart.html''" 0 False True 900
      "''[object Object]''"] ne recent lacks
  have two: "initializeSession (ticking 1000 1) ''x7q2mz'' ''/shop/cart.html''
       (Some (Unparsable ''[object Object]'')) 0 = Inl (Throws SyntaxError)"
    and three: "initializeSession (ticking 1000 1) ''x7q2mz'' ''/shop/cart.html''
       (Some (NotSession (OtherValue (Some 900) False True))) 0 = Inl (Throws TypeError)"
    and four: "initializeSession (ticking 1000 1) ''x7q2mz'' ''/shop/cart.html''
       (Some (NotSession (OtherValue (Some 900) True True))) 0 = Inl ResumesOther"
    by blast+
  from initializeSession_malformed
    [of "ticking 1000 1" "''x7q2mz''" "''/shop/cart.html''" 0 False False]
  have five: "initializeSession (ticking 1000 1) ''x7q2mz'' ''/shop/cart.html''
       (Some (NotSession (OtherValue None False False))) 0
     = Inr (saveSession (ticking 1000 1) (trackPageView (ticking 1000 1) ''/shop/cart.html''
            (createNewSession (ticking 1000 1) ''x7q2mz'' None (0 + 1))))"
    by simp
  from one ne two recent lacks three four five show ?thesis by (intro conjI)
qed

text \<open>
  The claim fails on the stored text \<^verbatim>\<open>[object Object]\<close>, which is what a write of an
  object that was not serialized leaves: \<^verbatim>\<open>JSON.parse\<close> throws and
  \<^verbatim>\<open>initializeSession\<close> has no handler. It fails on the text \<^verbatim>\<open>null\<close>, where reading
  \<^verbatim>\<open>data.lastActivity\<close> throws. And it fails on an object that holds a time of 900 as
  its \<^verbatim>\<open>lastActivity\<close> and nothing else, at a page load at 1000: the object is
  resumed, and \<^verbatim>\<open>trackPageView\<close> throws for want of \<^verbatim>\<open>activities\<close>.
\<close>

theorem initializeSession_malformed_counterexample:
  "initializeSession (ticking 1000 1) ''x7q2mz'' ''/shop/cart.html''
     (Some (Unparsable ''[object Object]'')) 0 = Inl (Throws SyntaxError) \<and>
   initializeSession (ticking 1000 1) ''x7q2mz'' ''/shop/cart.html''
     (Some (NotSession NullValue)) 0 = Inl (Throws TypeError) \<and>
   initializeSession (ticking 1000 1) ''x7q2mz'' ''/shop/cart.html''
     (Some (NotSession (OtherValue (Some 900) False False))) 0 = Inl (Throws TypeError)"
  by (simp add: initializeSession_def sessionTimeout_def ticking_def)

text \<open>
  C6, as the code has it. Let the tracker hold the session that \<^verbatim>\<open>JSON.parse\<close> reads
  from the store. \<^verbatim>\<open>saveSession\<close> then stores the text that \<^verbatim>\<open>JSON.stringify\<close> writes
  for that session with \<^verbatim>\<open>lastActivity\<close> set to the time of the save and every other
  property as stored. When the stored text was the one that \<^verbatim>\<open>JSON.stringify\<close> writes
  for the session, as \<^verbatim>\<open>saveSession\<close> leaves it, the text is the same as before exactly
  when the time of the save equals the stored \<^verbatim>\<open>lastActivity\<close>. When the stored text
  spelled the session otherwise, as an indented text does, it is not the same as
  before, whatever the time of the save.
\<close>

theorem save_after_load:
  "localStorage w = Some b \<and> JSON_parse b = Inr (ASession (sessionData w)) \<longrightarrow>
     localStorage (saveSession clk w)
       = Some (JSON_stringify ((sessionData w)\<lparr>lastActivity := clk (clockReads w)\<rparr>)) \<and>
     (b = JSON_stringify (sessionData w) \<longrightarrow>
        (localStorage (saveSession clk w) = localStorage w
           \<longleftrightarrow> clk (clockReads w) = lastActivity (sessionData w))) \<and>
     (b \<noteq> JSON_stringify (sessionData w) \<longrightarrow>
        localStorage (saveSession clk w) \<noteq> localStorage w)"
proof (intro impI, elim conjE)
  assume stored: "localStorage w = Some b"
    and parsed: "JSON_parse b = Inr (ASession (sessionData w))"
  from parsed have kinds: "b = Serialized (sessionData w) \<or> (\<exists>sp. b = Respelled sp (sessionData w))"
    by (simp add: parses_to_session)
  have same: "((sessionData w)\<lparr>lastActivity := t\<rparr> = sessionData w)
      \<longleftrightarrow> t = lastActivity (sessionData w)" for t
    by (cases "sessionData w") auto
  from kinds
  show "localStorage (saveSession clk w)
       = Some (JSON_stringify ((sessionData w)\<lparr>lastActivity := clk (clockReads w)\<rparr>)) \<and>
     (b = JSON_stringify (sessionData w) \<longrightarrow>
        (localStorage (saveSession clk w) = localStorage w
           \<longleftrightarrow> clk (clockReads w) = lastActivity (sessionData w))) \<and>
     (b \<noteq> JSON_stringify (sessionData w) \<longrightarrow>
        localStorage (saveSession clk w) \<noteq> localStorage w)"
    by (auto simp: saveSession_localStorage JSON_stringify_def stored same)
qed

theorem save_after_load_witness:
  "localStorage trackerExample = Some (Serialized storedExample) \<and>
   JSON_parse (Serialized storedExample) = Inr (ASession (sessionData trackerExample)) \<and>
   Serialized storedExample = JSON_stringify (sessionData trackerExample) \<and>
   localStorage (saveSession (ticking 500 1) trackerExample) = localStorage trackerExample \<and>
   localStorage (saveSession (ticking 1000 1) trackerExample)
     = Some (JSON_stringify (storedExample\<lparr>lastActivity := 1000\<rparr>)) \<and>
   localStorage (trackerExample\<lparr>localStorage := Some (Respelled (Indented 1) storedExample)\<rparr>)
     = Some (Respelled (Indented 1) storedExample) \<and>
   JSON_parse (Respelled (Indented 1) storedExample)
     = Inr (ASession (sessionData
         (trackerExample\<lparr>localStorage := Some (Respelled (Indented 1) storedExample)\<rparr>))) \<and>
   Respelled (Indented 1) storedExample
     \<noteq> JSON_stringify (sessionData
         (trackerExample\<lparr>localStorage := Some (Respelled (Indented 1) storedExample)\<rparr>)) \<and>
   localStorage (saveSession (ticking 500 1)
       (trackerExample\<lparr>localStorage := Some (Respelled (Indented 1) storedExample)\<rparr>))
     \<noteq> localStorage
       (trackerExample\<lparr>localStorage := Some (Respelled (Indented 1) storedExample)\<rparr>)"
proof -
  let ?indented = "trackerExample\<lparr>localStorage := Some (Respelled (Indented 1) storedExample)\<rparr>"
  have stored: "localStorage trackerExample = Some (Serialized storedExample)"
    and parsed: "JSON_parse (Serialized storedExample)
        = Inr (ASession (sessionData trackerExample))"
    and written: "Serialized storedExample = JSON_stringify (sessionData trackerExample)"
    by (simp_all add: trackerExample_def JSON_stringify_def)
  have t: "ticking 500 1 (clockReads trackerExample) = lastActivity (sessionData trackerExample)"
    "ticking 1000 1 (clockReads trackerExample) = 1000"
    "sessionData trackerExample = storedExample"
    by (simp_all add: ticking_def trackerExample_def storedExample_def)
  from save_after_load [of trackerExample "Serialized storedExample" "ticking 500 1"]
    stored parsed written t(1)
  have one: "localStorage (saveSession (ticking 500 1) trackerExample)
      = localStorage trackerExample"
    by blast
  from save_after_load [of trackerExample "Serialized storedExample" "ticking 1000 1"]
    stored parsed
  have two: "localStorage (saveSession (ticking 1000 1) trackerExample)
     = Some (JSON_stringify (storedExample\<lparr>lastActivity := 1000\<rparr>))"
    unfolding t by blast
  have stored': "localStorage ?indented = Some (Respelled (Indented 1) storedExample)"
    and parsed': "JSON_parse (Respelled (Indented 1) storedExample)
        = Inr (ASession (sessionData ?indented))"
    and other: "Respelled (Indented 1) storedExample \<noteq> JSON_stringify (sessionData ?indented)"
    by (simp_all add: trackerExample_def JSON_stringify_def)
  from save_after_load [of ?indented "Respelled (Indented 1) storedExample" "ticking 500 1"]
    stored' parsed' other
  have three: "localStorage (saveSession (ticking 500 1) ?indented) \<noteq> localStorage ?indented"
    by blast
  from stored parsed written one two stored' parsed' other three
  show ?thesis by (intro conjI)
qed

text \<open>
  The claim fails when the save comes later than the stored \<^verbatim>\<open>lastActivity\<close>: the
  session stored with \<^verbatim>\<open>lastActivity = 500\<close> and saved at 1000 is stored with 1000. It
  fails at the stored millisecond too when the stored text is indented: the text is
  replaced by the one that \<^verbatim>\<open>JSON.stringify\<close> writes, which has no indentation.
\<close>

theorem save_after_load_counterexample:
  "localStorage trackerExample = Some (Serialized storedExample) \<and>
   JSON_parse (Serialized storedExample) = Inr (ASession (sessionData trackerExample)) \<and>
   localStorage (saveSession (ticking 1000 1) trackerExample) \<noteq> localStorage trackerExample \<and>
   persistedLastActivity (localStorage trackerExample) = Some 500 \<and>
   persistedLastActivity (localStorage (saveSession (ticking 1000 1) trackerExample))
     = Some 1000 \<and>
   JSON_parse (Respelled (Indented 1) storedExample) = Inr (ASession storedExample) \<and>
   ticking 500 1 0 = lastActivity storedExample \<and>
   localStorage (saveSession (ticking 500 1)
       \<lparr>sessionData = storedExample,
        localStorage = Some (Respelled (Indented 1) storedExample),
        clockReads = 0,
        widgetElement = True\<rparr>)
     = Some (Serialized storedExample)"
proof -
  have same: "storedExample\<lparr>lastActivity := 500\<rparr> = storedExample"
    by (simp add: storedExample_def)
  show ?thesis
    by (simp add: saveSession_localStorage trackerExample_def ticking_def same)
       (simp add: storedExample_def)
qed


subsection \<open>Across page loads\<close>

text \<open>
  With a clock that never goes back, a bound below the current reading stays below
  every later reading.
\<close>

lemma mono_clock_le:
  "mono clk \<Longrightarrow> x \<le> clk k \<Longrightarrow> k \<le> k' \<Longrightarrow> x \<le> clk k'"
  by (meson monoD order_trans)

lemma times_saveSession:
  assumes "mono clk"
    and "startTime (sessionData w) \<le> clk (clockReads w)"
  shows "startTime (sessionData (saveSession clk w)) \<le> lastActivity (sessionData (saveSession clk w)) \<and>
         startTime (sessionData (saveSession clk w)) \<le> clk (clockReads (saveSession clk w))"
  using assms mono_clock_le [of clk "startTime (sessionData w)" "clockReads w" "Suc (clockReads w)"]
  by (simp add: saveSession_sessionData saveSession_clockReads)

lemma times_updateStats:
  assumes "mono clk"
    and "startTime (sessionData w) \<le> lastActivity (sessionData w) \<and>
         startTime (sessionData w) \<le> clk (clockReads w)"
  shows "startTime (sessionData (updateStats clk durationElement w))
           \<le> lastActivity (sessionData (updateStats clk durationElement w)) \<and>
         startTime (sessionData (updateStats clk durationElement w))
           \<le> clk (clockReads (updateStats clk durationElement w))"
  using assms mono_clock_le [of clk "startTime (sessionData w)" "clockReads w" "Suc (clockReads w)"]
  by (simp add: updateStats_sessionData updateStats_clockReads)

lemma times_append:
  assumes "mono clk"
    and "startTime (sessionData w) \<le> clk (clockReads w)"
    and "startTime sd = startTime (sessionData w)"
  shows "startTime (sessionData (saveSession clk (w\<lparr>sessionData := sd, clockReads := Suc (clockReads w)\<rparr>)))
           \<le> lastActivity (sessionData (saveSession clk (w\<lparr>sessionData := sd, clockReads := Suc (clockReads w)\<rparr>))) \<and>
         startTime (sessionData (saveSession clk (w\<lparr>sessionData := sd, clockReads := Suc (clockReads w)\<rparr>)))
           \<le> clk (clockReads (saveSession clk (w\<lparr>sessionData := sd, clockReads := Suc (clockReads w)\<rparr>)))"
proof (rule times_saveSession [OF assms(1)])
  show "startTime (sessionData (w\<lparr>sessionData := sd, clockReads := Suc (clockReads w)\<rparr>))
          \<le> clk (clockReads (w\<lparr>sessionData := sd, clockReads := Suc (clockReads w)\<rparr>))"
    using assms mono_clock_le [of clk "startTime (sessionData w)" "clockReads w" "Suc (clockReads w)"]
    by simp
qed

lemma times_trackPageView:
  assumes "mono clk"
    and "startTime (sessionData w) \<le> clk (clockReads w)"
  shows "startTime (sessionData (trackPageView clk pathname w))
           \<le> lastActivity (sessionData (trackPageView clk pathname w)) \<and>
         startTime (sessionData (trackPageView clk pathname w))
           \<le> clk (clockReads (trackPageView clk pathname w))"
  unfolding trackPageView_def Let_def using assms by (intro times_append) simp_all

text \<open>
  What \<^verbatim>\<open>initializeSession\<close> gives keeps the times in order, when the stored session
  was started no later than now.
\<close>

lemma times_initializeSession:
  assumes clk: "mono clk"
    and tied: "storedStartedBy stored (clk n)"
    and init: "initializeSession clk random pathname stored n = Inr w"
  shows "startTime (sessionData w) \<le> lastActivity (sessionData w) \<and>
         startTime (sessionData w) \<le> clk (clockReads w)"
proof -
  have step: "startTime (sessionData (saveSession clk (trackPageView clk pathname w0)))
        \<le> lastActivity (sessionData (saveSession clk (trackPageView clk pathname w0))) \<and>
      startTime (sessionData (saveSession clk (trackPageView clk pathname w0)))
        \<le> clk (clockReads (saveSession clk (trackPageView clk pathname w0)))"
    if "startTime (sessionData w0) \<le> clk (clockReads w0)" for w0
    using times_trackPageView [OF clk that] by (intro times_saveSession [OF clk]) simp
  from initializeSession_Inr [OF init] show ?thesis
  proof (elim disjE exE conjE)
    assume w: "w = saveSession clk (trackPageView clk pathname
        (createNewSession clk random stored (n + 1)))"
    have "clk (n + 2) \<le> clk (n + 4)" using clk by (simp add: monoD)
    then have "startTime (sessionData (createNewSession clk random stored (n + 1)))
        \<le> clk (clockReads (createNewSession clk random stored (n + 1)))"
      by (simp add: createNewSession_def add.commute)
    from step [OF this] show ?thesis by (simp add: w)
  next
    fix b s
    assume stored: "stored = Some b" and parsed: "JSON_parse b = Inr (ASession s)"
      and w: "w = saveSession clk (trackPageView clk pathname
          \<lparr>sessionData = s\<lparr>lastActivity := clk (n + 1)\<rparr>, localStorage = stored,
           clockReads = n + 2, widgetElement = False\<rparr>)"
    from parsed tied stored have "startTime s \<le> clk n"
      by (auto simp: parses_to_session)
    then have "startTime s \<le> clk (n + 2)"
      using mono_clock_le [OF clk, of "startTime s" n "n + 2"] by simp
    then have "startTime (sessionData
          \<lparr>sessionData = s\<lparr>lastActivity := clk (n + 1)\<rparr>, localStorage = stored,
           clockReads = n + 2, widgetElement = False\<rparr>)
        \<le> clk (clockReads
          \<lparr>sessionData = s\<lparr>lastActivity := clk (n + 1)\<rparr>, localStorage = stored,
           clockReads = n + 2, widgetElement = False\<rparr>)"
      by simp
    from step [OF this] show ?thesis by (simp add: w)
  qed
qed

lemma times_visited:
  assumes clk: "mono clk"
  shows "visited clk w \<Longrightarrow>
    startTime (sessionData w) \<le> lastActivity (sessionData w) \<and>
    startTime (sessionData w) \<le> clk (clockReads w)"
proof (induction rule: visited.induct)
  case (created random stored n)
  have "clk (n + 1) \<le> clk (n + 2)" "clk (n + 1) \<le> clk (n + 3)"
    using clk by (simp_all add: monoD)
  then show ?case by (simp add: createNewSession_def)
next
  case (loaded stored n random pathname w)
  then show ?case by (intro times_initializeSession [OF clk])
next
  case (viewed w pathname)
  then show ?case by (intro times_trackPageView [OF clk]) simp
next
  case (clicked w elementText durationElement)
  then show ?case
    unfolding trackClick_def Let_def
    by (auto intro!: times_updateStats [OF clk] times_append [OF clk])
next
  case (submitted w formId durationElement)
  then show ?case
    unfolding trackFormSubmit_def Let_def
    by (auto intro!: times_updateStats [OF clk] times_append [OF clk])
next
  case (scrolled w docScrollHeight innerHeight scrollY)
  let ?k = "length (activities (sessionData w))"
  let ?p = "scrollPercentageOf docScrollHeight innerHeight scrollY"
  from scrollLoop_saves [of clk ?p w ?k] show ?case
  proof (elim disjE conjE exE)
    assume "scrollLoop clk ?p w ?k = w"
    with scrolled.IH show ?thesis by (simp add: updateScrollPercentage_def)
  next
    fix acts'
    assume eq: "scrollLoop clk ?p w ?k =
      saveSession clk (w\<lparr>sessionData := (sessionData w)\<lparr>activities := acts'\<rparr>\<rparr>)"
    have "startTime (sessionData (w\<lparr>sessionData := (sessionData w)\<lparr>activities := acts'\<rparr>\<rparr>))
            \<le> clk (clockReads (w\<lparr>sessionData := (sessionData w)\<lparr>activities := acts'\<rparr>\<rparr>))"
      using scrolled.IH by simp
    from times_saveSession [OF clk this] show ?thesis
      by (simp add: updateScrollPercentage_def eq)
  qed
next
  case (saved w)
  then show ?case by (intro times_saveSession [OF clk]) simp
next
  case (rendered w)
  then show ?case by (simp add: renderWidget_def)
next
  case (redrawn w durationElement)
  then show ?case by (intro times_updateStats [OF clk])
qed

text \<open>
  The condition on the store at a page load is one that the tracker provides itself:
  what a tracker has saved was started no later than any later reading of the clock.
  And every state reached from a fresh session without a page load is among the
  states across page loads.
\<close>

lemma saved_session_startedBy:
  assumes "mono clk" and "visited clk w"
    and "localStorage w = Some (JSON_stringify (sessionData w))" and "clockReads w \<le> n"
  shows "storedStartedBy (localStorage w) (clk n)"
  using times_visited [OF assms(1,2)] assms(3,4)
    mono_clock_le [OF assms(1), of "startTime (sessionData w)" "clockReads w" n]
  by (simp add: JSON_stringify_def)

lemma reachable_visited: "reachable clk w \<Longrightarrow> visited clk w"
  by (induction rule: reachable.induct) (auto intro: visited.intros)

text \<open>
  C8, as the code has it. With a clock that only moves forward, \<^verbatim>\<open>lastActivity\<close> is at
  least \<^verbatim>\<open>startTime\<close> in every state that a tracker reaches from the creation of a
  session, or from a page load that finds in the store no session started after the
  load, by tracking, scroll updates, saves and redraws. Creation establishes it without
  making the two equal: \<^verbatim>\<open>createNewSession\<close> reads the clock once for the identifier,
  again for \<^verbatim>\<open>startTime\<close> and again for \<^verbatim>\<open>lastActivity\<close>. Every later operation moves
  \<^verbatim>\<open>lastActivity\<close> to a later reading and leaves \<^verbatim>\<open>startTime\<close> alone.
\<close>

theorem lastActivity_ge_startTime:
  "mono clk \<Longrightarrow> visited clk w \<Longrightarrow>
   startTime (sessionData w) \<le> lastActivity (sessionData w)"
  using times_visited by blast

theorem lastActivity_ge_startTime_witness:
  "mono (ticking 1000 1) \<and>
   storedStartedBy (Some (Serialized storedExample)) (ticking 1000 1 0) \<and>
   initializeSession (ticking 1000 1) ''x7q2mz'' ''/shop/cart.html''
       (Some (Serialized storedExample)) 0
     = Inr (saveSession (ticking 1000 1) (trackPageView (ticking 1000 1) ''/shop/cart.html''
         \<lparr>sessionData = storedExample\<lparr>lastActivity := 1001\<rparr>,
          localStorage = Some (Serialized storedExample),
          clockReads = 2, widgetElement = False\<rparr>)) \<and>
   visited (ticking 1000 1)
     (trackClick (ticking 1000 1) ''Buy'' True (renderWidget
       (saveSession (ticking 1000 1) (trackPageView (ticking 1000 1) ''/shop/cart.html''
         \<lparr>sessionData = storedExample\<lparr>lastActivity := 1001\<rparr>,
          localStorage = Some (Serialized storedExample),
          clockReads = 2, widgetElement = False\<rparr>)))) \<and>
   startTime (sessionData
     (trackClick (ticking 1000 1) ''Buy'' True (renderWidget
       (saveSession (ticking 1000 1) (trackPageView (ticking 1000 1) ''/shop/cart.html''
         \<lparr>sessionData = storedExample\<lparr>lastActivity := 1001\<rparr>,
          localStorage = Some (Serialized storedExample),
          clockReads = 2, widgetElement = False\<rparr>)))))
   \<le> lastActivity (sessionData
     (trackClick (ticking 1000 1) ''Buy'' True (renderWidget
       (saveSession (ticking 1000 1) (trackPageView (ticking 1000 1) ''/shop/cart.html''
         \<lparr>sessionData = storedExample\<lparr>lastActivity := 1001\<rparr>,
          localStorage = Some (Serialized storedExample),
          clockReads = 2, widgetElement = False\<rparr>)))))"
proof -
  have m: "mono (ticking 1000 1)"
    by (simp add: mono_def ticking_def)
  have tied: "storedStartedBy (Some (Serialized storedExample)) (ticking 1000 1 0)"
    by (simp add: storedExample_def ticking_def)
  have init: "initializeSession (ticking 1000 1) ''x7q2mz'' ''/shop/cart.html''
       (Some (Serialized storedExample)) 0
     = Inr (saveSession (ticking 1000 1) (trackPageView (ticking 1000 1) ''/shop/cart.html''
         \<lparr>sessionData = storedExample\<lparr>lastActivity := 1001\<rparr>,
          localStorage = Some (Serialized storedExample),
          clockReads = 2, widgetElement = False\<rparr>))"
  proof -
    have "JSON_parse (Serialized storedExample) = Inr (ASession storedExample)" by simp
    moreover have "ticking 1000 1 0 - lastActivity storedExample < sessionTimeout"
      "ticking 1000 1 (0 + 1) = 1001"
      by (simp_all add: sessionTimeout_def ticking_def storedExample_def)
    ultimately show ?thesis by (simp add: initializeSession_stored numeral_2_eq_2)
  qed
  have v: "visited (ticking 1000 1)
     (trackClick (ticking 1000 1) ''Buy'' True (renderWidget
       (saveSession (ticking 1000 1) (trackPageView (ticking 1000 1) ''/shop/cart.html''
         \<lparr>sessionData = storedExample\<lparr>lastActivity := 1001\<rparr>,
          localStorage = Some (Serialized storedExample),
          clockReads = 2, widgetElement = False\<rparr>))))"
    by (intro visited.clicked visited.rendered visited.loaded [OF tied init])
  from m tied init v lastActivity_ge_startTime [OF m v] show ?thesis by (intro conjI)
qed

text \<open>
  The claim fails where it says that creation makes the two times equal, and equal to
  the time of creation: on a clock that advances by a millisecond at each reading, the
  identifier carries 1000, \<^verbatim>\<open>startTime\<close> is 1001 and \<^verbatim>\<open>lastActivity\<close> is 1002. And a
  resumed session is a reachable state too: with a stored session that starts at 5000,
  after the page load at 1000, the clock moving forward, \<^verbatim>\<open>startTime\<close> is 5000 and
  \<^verbatim>\<open>lastActivity\<close> is 1004.
\<close>

theorem lastActivity_ge_startTime_counterexample:
  "idTimestamp (sessionId (sessionData
      (createNewSession (ticking 1000 1) ''k3f9xa'' None 0))) = 1000 \<and>
   startTime (sessionData (createNewSession (ticking 1000 1) ''k3f9xa'' None 0)) = 1001 \<and>
   lastActivity (sessionData (createNewSession (ticking 1000 1) ''k3f9xa'' None 0)) = 1002 \<and>
   mono (ticking 1000 1) \<and>
   map_sum id (startTime \<circ> sessionData)
     (initializeSession (ticking 1000 1) ''x7q2mz'' ''/shop/cart.html''
        (Some (Serialized (storedExample\<lparr>startTime := 5000\<rparr>))) 0) = Inr 5000 \<and>
   map_sum id (lastActivity \<circ> sessionData)
     (initializeSession (ticking 1000 1) ''x7q2mz'' ''/shop/cart.html''
        (Some (Serialized (storedExample\<lparr>startTime := 5000\<rparr>))) 0) = Inr 1004"
  by (simp add: createNewSession_def ticking_def mono_def initializeSession_stored
      sessionTimeout_def storedExample_def saveSession_sessionData trackPageView_sessionData
      trackPageView_clockReads)

text \<open>
  The counters still match the log after a page load, whether \<^verbatim>\<open>initializeSession\<close>
  resumes a stored session whose counters match or starts a new one.
\<close>

lemma stats_match_initializeSession:
  assumes init: "initializeSession clk random pathname stored n = Inr w"
    and stored: "\<And>b s. stored = Some b \<Longrightarrow> JSON_parse b = Inr (ASession s) \<Longrightarrow> stats_match s"
  shows "stats_match (sessionData w)"
proof -
  from initializeSession_Inr [OF init] show ?thesis
  proof (elim disjE exE conjE)
    assume "w = saveSession clk (trackPageView clk pathname
        (createNewSession clk random stored (n + 1)))"
    then show ?thesis
      by (simp add: fresh_start_sessionData stats_match_def count_where_def
          isPageView_def isClick_def isSubmit_def pageViewAt_def)
  next
    fix b s
    assume held: "stored = Some b" and parsed: "JSON_parse b = Inr (ASession s)"
      and w: "w = saveSession clk (trackPageView clk pathname
          \<lparr>sessionData = s\<lparr>lastActivity := clk (n + 1)\<rparr>, localStorage = stored,
           clockReads = n + 2, widgetElement = False\<rparr>)"
    from stored [OF held parsed] have "stats_match s" .
    then have "stats_match (sessionData (saveSession clk (trackPageView clk pathname
          \<lparr>sessionData = s\<lparr>lastActivity := clk (n + 1)\<rparr>, localStorage = stored,
           clockReads = n + 2, widgetElement = False\<rparr>)))"
      by (intro iffD2 [OF stats_match_saveSession] stats_match_trackPageView)
         (simp add: stats_match_def)
    then show ?thesis by (simp add: w)
  qed
qed

text \<open>
  Two runs on concrete times: a first visit at 1000, which counts one page view; and,
  after a click on \<^verbatim>\<open>Buy\<close> saved at 1500, a page load 3700000 ms later, which starts
  a new session that counts one page view and no click.
\<close>

lemma scenario_first_visit:
  "map_sum id (stats \<circ> sessionData)
     (initializeSession (ticking 1000 0) ''k3f9xa'' ''/index.html'' None 0)
     = Inr \<lparr>pagesViewed = 1, totalClicks = 0, formsSubmitted = 0\<rparr>"
  by (simp add: initializeSession_def saveSession_sessionData trackPageView_sessionData
      createNewSession_def)

lemma scenario_expired:
  "map_sum id (stats \<circ> sessionData)
     (initializeSession (ticking 3701500 0) ''x7q2mz'' ''/index.html''
        (localStorage (trackClick (ticking 1500 0) ''Buy'' True trackerExample)) 0)
     = Inr \<lparr>pagesViewed = 1, totalClicks = 0, formsSubmitted = 0\<rparr>"
  by (simp add: trackClick_def updateStats_localStorage saveSession_localStorage Let_def
      initializeSession_stored sessionTimeout_def ticking_def saveSession_sessionData
      trackPageView_sessionData createNewSession_def)

end
